theory Spec2Isabelle
  imports Main "HOL-Library.Word"
begin

unbundle bit_operations_syntax

section \<open>Slot clock (SlotService)\<close>

text \<open>
  The numbers of JavaScript are IEEE 754 doubles. The slot clock computes on numbers that
  hold integers (milliseconds, epoch seconds, slot numbers): such a number is modelled by
  the integer it holds, and a product, a difference or a quotient is rounded as the
  double arithmetic rounds it, to a significand of 53 bits, to the nearest value and to
  the even one on a tie. (The other numbers of the model, amounts, fees and heights, are
  compared and added only, and are integers of type \<open>int\<close>.) Overflow to \<open>Infinity\<close>,
  from \<open>2^1024\<close> on, is outside the model.
\<close>

text \<open>The number of binary digits of a natural number.\<close>

fun bitlen :: "nat \<Rightarrow> nat" where
  "bitlen n = (if n = 0 then 0 else Suc (bitlen (n div 2)))"

declare bitlen.simps [simp del]

text \<open>The quotient of \<open>a \<ge> 0\<close> by \<open>b > 0\<close>, rounded to the nearest integer, to the
  even one on a tie.\<close>

definition rne_div :: "int \<Rightarrow> int \<Rightarrow> int" where
  "rne_div a b =
     (let q = a div b; r = a mod b
      in if 2 * r < b then q
         else if b < 2 * r then q + 1
         else if even q then q else q + 1)"

text \<open>The double nearest to an integer: the integer itself when it has at most 53 binary
  digits, else the nearest multiple of \<open>2 ^ (e - 53)\<close>, for \<open>e\<close> its number of digits.\<close>

definition round_double :: "int \<Rightarrow> int" where
  "round_double n =
     (let e = bitlen (nat \<bar>n\<bar>)
      in if e \<le> 53 then n
         else (let u = 2 ^ (e - 53); m = rne_div \<bar>n\<bar> u * u
               in if n < 0 then - m else m))"

text \<open>
  \<open>Math.floor(a / b)\<close> for an integer-valued \<open>a\<close> and a positive integer \<open>b\<close> (the
  source divides by \<open>SECOND\<close> and by the slot interval). The quotient \<open>\<bar>a\<bar> / b\<close> lies
  below \<open>2 ^ e\<close>, for \<open>e\<close> the number of digits of its integer part, so the double
  quotient is the multiple of \<open>2 ^ (e - 53)\<close> nearest to it: \<open>m * 2 ^ (e - 53)\<close> for
  \<open>53 < e\<close>, and \<open>m / 2 ^ (53 - e)\<close> otherwise, of which \<open>Math.floor\<close> takes the floor
  (for a negative \<open>a\<close>, minus the ceiling).
\<close>

definition floor_div_double :: "int \<Rightarrow> int \<Rightarrow> int" where
  "floor_div_double a b =
     (let n = \<bar>a\<bar>; e = bitlen (nat (n div b))
      in if 53 < e
         then (let u = 2 ^ (e - 53); m = rne_div n (b * u) * u
               in if a < 0 then - m else m)
         else (let u = 2 ^ (53 - e); m = rne_div (n * u) b
               in if a < 0 then - ((m + u - 1) div u) else m div u))"

definition SECOND :: int where
  "SECOND = 1000"

definition interval :: int where
  "interval = 10"

text \<open>\<open>getEpochTime\<close>: \<open>epochStart\<close> is \<open>beginEpochTime().getTime()\<close>, the configured
  epoch anchor in milliseconds.\<close>

definition getEpochTime :: "int \<Rightarrow> int \<Rightarrow> int" where
  "getEpochTime epochStart time = floor_div_double (round_double (time - epochStart)) SECOND"

definition getTime :: "int \<Rightarrow> int \<Rightarrow> int" where
  "getTime epochStart time = getEpochTime epochStart time"

definition getSlotNumber :: "int \<Rightarrow> int" where
  "getSlotNumber epochTime = floor_div_double epochTime interval"

definition getSlotTime :: "int \<Rightarrow> int" where
  "getSlotTime slot = round_double (slot * interval)"

section \<open>Results, accounts and transactions\<close>

text \<open>
  Modelled from the spec: \<open>ResponseEntity\<close> (shared/model/response) is not under src/.
  Section 7 of the specification: a verification returns a structured value carrying a
  list of messages; it is a failure when the list is not empty. The object
  \<open>{ success: true }\<close> that \<open>checkBalance\<close> returns is the response without errors.
\<close>

record ResponseEntity =
  errors :: "string list"

definition success :: "ResponseEntity \<Rightarrow> bool" where
  "success r = (errors r = [])"

text \<open>\<open>IFunctionResponse\<close>, the plain object \<open>{ success, errors }\<close>.\<close>

record IFunctionResponse =
  fr_success :: bool
  fr_errors :: "string list"

record Account =
  address :: int
  publicKey :: string
  actualBalance :: int
  totalStakedAmount :: int

text \<open>
  \<open>IAssetTransfer\<close>. The transaction service reads the asset only under
  \<open>trs.type === TransactionType.SEND\<close>, through the cast to \<open>IAssetTransfer\<close>; the
  assets of the other types are read by the per-type services, which are parameters here
  and receive the whole transaction.
\<close>

record IAssetTransfer =
  recipientAddress :: int
  amount :: int

text \<open>
  \<open>Transaction\<close>. A string field that is absent (\<open>undefined\<close>) is the empty string and
  a numeric field that is absent is \<open>0\<close>: the source tests these fields by truthiness
  only, which does not tell the two apart. The optional fields \<open>signature\<close>,
  \<open>secondSignature\<close> and \<open>blockId\<close> are options.
\<close>

record Transaction =
  trs_id :: string
  blockId :: "string option"
  trs_type :: int
  createdAt :: int
  senderPublicKey :: string
  senderAddress :: int
  signature :: "string option"
  secondSignature :: "string option"
  salt :: string
  fee :: int
  asset :: IAssetTransfer

type_synonym byte = "8 word"

datatype error = RangeError | TypeError | Thrown string | OutOfFuel

text \<open>
  \<open>IAssetService\<close>, the per-type service returned by \<open>getTransactionServiceByType\<close>
  (core/util/transaction, not under src/): a parameter. \<open>calculateUndoUnconfirmed\<close>
  mutates the sender, so it returns the account.
\<close>

record IAssetService =
  sv_getBytes :: "Transaction \<Rightarrow> byte list"
  sv_validate :: "Transaction \<Rightarrow> Account \<Rightarrow> ResponseEntity"
  sv_verifyUnconfirmed :: "Transaction \<Rightarrow> Account \<Rightarrow> ResponseEntity"
  sv_calculateUndoUnconfirmed :: "Transaction \<Rightarrow> Account \<Rightarrow> Account"
  sv_calculateFee :: "Transaction \<Rightarrow> Account \<Rightarrow> int"

text \<open>\<open>BUFFER.LENGTH\<close> (core/util/buffer, not under src/): its constants are parameters.\<close>

record BUFFER_LENGTH =
  HEX :: nat
  INT64 :: nat
  DOUBLE_HEX :: nat

record IKeyPair =
  kp_publicKey :: "byte list"
  kp_privateKey :: "byte list"

text \<open>
  What the transaction service imports and is not under src/: the type code
  \<open>TransactionType.SEND\<close>, the buffer constants, \<open>config.genesisBlock.id\<close>, the
  per-type services, SHA-256 (\<open>crypto.createHash\<close>), \<open>ed.sign\<close>,
  \<open>TransactionRepo.isExist\<close>, \<open>TransactionQueue.verify\<close> and \<open>transactionSortFunc\<close>
  (as the strict order it sorts by).
\<close>

record Env =
  SEND :: int
  BUFFER_LEN :: BUFFER_LENGTH
  TRANSACTION_BUFFER_SIZE :: nat
  genesisBlock_id :: string
  getTransactionServiceByType :: "int \<Rightarrow> IAssetService"
  sha256 :: "byte list \<Rightarrow> byte list"
  ed_sign :: "byte list \<Rightarrow> IKeyPair \<Rightarrow> byte list"
  TransactionRepo_isExist :: "string \<Rightarrow> bool"
  TransactionQueue_verify :: "Transaction \<Rightarrow> Account \<Rightarrow> ResponseEntity"
  transactionSortFunc :: "Transaction \<Rightarrow> Transaction \<Rightarrow> bool"

section \<open>Strings and buffers\<close>

text \<open>Decimal rendering of an integer, for the template strings of the messages.\<close>

fun string_of_nat :: "nat \<Rightarrow> string" where
  "string_of_nat n =
     (if n < 10 then [char_of (48 + n)]
      else string_of_nat (n div 10) @ [char_of (48 + n mod 10)])"

definition string_of_int :: "int \<Rightarrow> string" where
  "string_of_int i = (if i < 0 then CHR ''-'' # string_of_nat (nat (- i)) else string_of_nat (nat i))"

text \<open>The order of JavaScript's \<open><\<close> and \<open>>\<close> on strings: by code units, a proper
  prefix first.\<close>

fun string_less :: "string \<Rightarrow> string \<Rightarrow> bool" where
  "string_less [] [] = False"
| "string_less [] (y # ys) = True"
| "string_less (x # xs) [] = False"
| "string_less (x # xs) (y # ys) =
     ((of_char x :: nat) < of_char y \<or> (x = y \<and> string_less xs ys))"

text \<open>
  The encodings of \<open>buf.write\<close>. UTF-8 (the default encoding): a character below 128
  is one byte, one from 128 to 255 is two bytes, and a character that does not fit whole
  in the space left is not written. Hex: two digits a byte, stopping at the first pair
  that is not two hex digits.
\<close>

definition utf8_char :: "char \<Rightarrow> byte list" where
  "utf8_char c =
     (let n = (of_char c :: nat)
      in if n < 128 then [of_nat n] else [of_nat (192 + n div 64), of_nat (128 + n mod 64)])"

fun utf8_fit :: "nat \<Rightarrow> string \<Rightarrow> byte list" where
  "utf8_fit n [] = []"
| "utf8_fit n (c # cs) =
     (let e = utf8_char c
      in if length e \<le> n then e @ utf8_fit (n - length e) cs else [])"

definition hex_digit :: "char \<Rightarrow> nat option" where
  "hex_digit c =
     (let n = (of_char c :: nat)
      in if 48 \<le> n \<and> n \<le> 57 then Some (n - 48)
         else if 97 \<le> n \<and> n \<le> 102 then Some (n - 87)
         else if 65 \<le> n \<and> n \<le> 70 then Some (n - 55)
         else None)"

fun hex_decode :: "string \<Rightarrow> byte list" where
  "hex_decode (a # b # r) =
     (case (hex_digit a, hex_digit b) of
        (Some x, Some y) \<Rightarrow> of_nat (16 * x + y) # hex_decode r
      | _ \<Rightarrow> [])"
| "hex_decode _ = []"

definition hex_char :: "nat \<Rightarrow> char" where
  "hex_char n = (if n < 10 then char_of (48 + n) else char_of (87 + n))"

definition to_hex :: "byte list \<Rightarrow> string" where
  "to_hex bs = concat (map (\<lambda>b. [hex_char (unat b div 16), hex_char (unat b mod 16)]) bs)"

text \<open>The \<open>n\<close> low-order bytes of an integer, least significant first.\<close>

definition le_bytes :: "nat \<Rightarrow> int \<Rightarrow> byte list" where
  "le_bytes n v = map (\<lambda>i. word_of_int (v div 2 ^ (8 * i))) [0..<n]"

definition Buffer_alloc :: "nat \<Rightarrow> byte list" where
  "Buffer_alloc n = replicate n 0"

text \<open>
  \<open>buf.write(string, offset, length, encoding)\<close> of Node: \<open>offset\<close> and \<open>length\<close>
  must lie within the buffer (a \<open>RangeError\<close> otherwise); of the bytes the string
  encodes to, those that fit in \<open>length\<close> and in the space left are written at
  \<open>offset\<close>, over the bytes that were there (\<open>put\<close>).
\<close>

definition put :: "byte list \<Rightarrow> nat \<Rightarrow> byte list \<Rightarrow> byte list" where
  "put buf offset d = take offset buf @ d @ drop (offset + length d) buf"

definition Buffer_write_hex :: "byte list \<Rightarrow> string \<Rightarrow> nat \<Rightarrow> nat \<Rightarrow> error + byte list" where
  "Buffer_write_hex buf s offset len =
     (if length buf < offset \<or> length buf < len then Inl RangeError
      else Inr (put buf offset (take (min len (length buf - offset)) (hex_decode s))))"

definition Buffer_write_utf8 :: "byte list \<Rightarrow> string \<Rightarrow> nat \<Rightarrow> nat \<Rightarrow> error + byte list" where
  "Buffer_write_utf8 buf s offset len =
     (if length buf < offset \<or> length buf < len then Inl RangeError
      else Inr (put buf offset (utf8_fit (min len (length buf - offset)) s)))"

text \<open>
  Modelled from the spec: the helpers \<open>BUFFER.writeInt8\<close>, \<open>writeInt32LE\<close>,
  \<open>writeUInt64LE\<close> and \<open>writeNotNull\<close> (core/util/buffer) are not under src/.
  Section 4.1: the type is one byte, \<open>createdAt\<close> four bytes and an address or amount
  eight bytes, little-endian, and the sender's public key is written raw (hex-decoded)
  when it is present. Each helper returns the offset after its field, as its call sites
  use it; a field that does not fit in the buffer is a \<open>RangeError\<close>.
\<close>

definition write_int :: "nat \<Rightarrow> byte list \<Rightarrow> int \<Rightarrow> nat \<Rightarrow> error + byte list \<times> nat" where
  "write_int n buf v offset =
     (if length buf < offset + n then Inl RangeError
      else Inr (put buf offset (le_bytes n v), offset + n))"

definition writeInt8 :: "byte list \<Rightarrow> int \<Rightarrow> nat \<Rightarrow> error + byte list \<times> nat" where
  "writeInt8 = write_int 1"

definition writeInt32LE :: "byte list \<Rightarrow> int \<Rightarrow> nat \<Rightarrow> error + byte list \<times> nat" where
  "writeInt32LE = write_int 4"

definition writeUInt64LE :: "byte list \<Rightarrow> int \<Rightarrow> nat \<Rightarrow> error + byte list \<times> nat" where
  "writeUInt64LE = write_int 8"

definition writeNotNull :: "byte list \<Rightarrow> string \<Rightarrow> nat \<Rightarrow> nat \<Rightarrow> error + byte list \<times> nat" where
  "writeNotNull buf v offset len =
     (if v = [] then Inr (buf, offset + len)
      else case Buffer_write_hex buf v offset len of
             Inl e \<Rightarrow> Inl e
           | Inr buf' \<Rightarrow> Inr (buf', offset + len))"

definition bindE :: "error + 'a \<Rightarrow> ('a \<Rightarrow> error + 'b) \<Rightarrow> error + 'b" where
  "bindE m f = (case m of Inl e \<Rightarrow> Inl e | Inr x \<Rightarrow> f x)"

section \<open>TransactionService\<close>

definition truthy :: "string option \<Rightarrow> bool" where
  "truthy v = (case v of None \<Rightarrow> False | Some s \<Rightarrow> s \<noteq> [])"

definition calculateUnconfirmedFee :: "Env \<Rightarrow> Transaction \<Rightarrow> Account \<Rightarrow> int" where
  "calculateUnconfirmedFee env trs sender =
     sv_calculateFee (getTransactionServiceByType env (trs_type trs)) trs sender"

definition calculateUndoUnconfirmed :: "Env \<Rightarrow> Transaction \<Rightarrow> Account \<Rightarrow> Account" where
  "calculateUndoUnconfirmed env trs sender =
     sv_calculateUndoUnconfirmed (getTransactionServiceByType env (trs_type trs)) trs sender"

definition checkBalance :: "Env \<Rightarrow> int \<Rightarrow> Transaction \<Rightarrow> Account \<Rightarrow> ResponseEntity" where
  "checkBalance env amnt trs sender =
     (if blockId trs = Some (genesisBlock_id env) then \<lparr>errors = []\<rparr>
      else if actualBalance sender \<ge> amnt then \<lparr>errors = []\<rparr>
      else \<lparr>errors = [''Not enough money on account '' @ string_of_int (address sender)
               @ '': balance '' @ string_of_int (actualBalance sender)
               @ '', amount: '' @ string_of_int amnt]\<rparr>)"

definition isConfirmed :: "Env \<Rightarrow> Transaction \<Rightarrow> IFunctionResponse" where
  "isConfirmed env trs = \<lparr>fr_success = TransactionRepo_isExist env (trs_id trs), fr_errors = []\<rparr>"

definition getBytes :: "Env \<Rightarrow> Transaction \<Rightarrow> error + byte list" where
  "getBytes env trs =
     (let L = BUFFER_LEN env;
          assetBytes = sv_getBytes (getTransactionServiceByType env (trs_type trs)) trs;
          bytes = Buffer_alloc (TRANSACTION_BUFFER_SIZE env)
      in bindE (Buffer_write_utf8 bytes (salt trs) 0 (HEX L)) (\<lambda>bytes.
         bindE (writeInt8 bytes (trs_type trs) (0 + HEX L)) (\<lambda>(bytes, offset).
         bindE (writeInt32LE bytes (createdAt trs) offset) (\<lambda>(bytes, offset).
         bindE (writeNotNull bytes (senderPublicKey trs) offset (HEX L)) (\<lambda>(bytes, offset).
         bindE (if trs_type trs = SEND env
                then bindE (writeUInt64LE bytes (recipientAddress (asset trs)) offset)
                       (\<lambda>(bytes, offset). writeUInt64LE bytes (amount (asset trs)) offset)
                else Inr (bytes, offset + (INT64 L + INT64 L))) (\<lambda>(bytes, offset).
         bindE (if truthy (signature trs)
                then Buffer_write_hex bytes (the (signature trs)) offset (DOUBLE_HEX L)
                else Inr bytes) (\<lambda>bytes.
         bindE (if truthy (secondSignature trs)
                then Buffer_write_hex bytes (the (secondSignature trs))
                       (offset + DOUBLE_HEX L) (DOUBLE_HEX L)
                else Inr bytes) (\<lambda>bytes.
         Inr (bytes @ assetBytes)))))))))"

definition getHash :: "Env \<Rightarrow> Transaction \<Rightarrow> error + byte list" where
  "getHash env trs = bindE (getBytes env trs) (\<lambda>bytes. Inr (sha256 env bytes))"

definition getId :: "Env \<Rightarrow> Transaction \<Rightarrow> error + string" where
  "getId env trs = bindE (getHash env trs) (\<lambda>h. Inr (to_hex h))"

definition sign :: "Env \<Rightarrow> IKeyPair \<Rightarrow> Transaction \<Rightarrow> error + string" where
  "sign env keyPair trs = bindE (getHash env trs) (\<lambda>h. Inr (to_hex (ed_sign env h keyPair)))"

text \<open>
  \<open>validate\<close>. The amount of a transfer is an integer here, and JavaScript prints an
  integer with exponent notation (the only rendering of an integer that has an \<open>e\<close> or a
  \<open>.\<close>) from \<open>10^21\<close> on: that is the test on \<open>String(asset.amount)\<close>.
\<close>

definition validate :: "Env \<Rightarrow> Transaction option \<Rightarrow> Account \<Rightarrow> ResponseEntity" where
  "validate env trs0 sender =
     (case trs0 of
        None \<Rightarrow> \<lparr>errors = [''Missing transaction'']\<rparr>
      | Some trs \<Rightarrow>
          (let es = [];
               es = es @ (if trs_id trs = [] then [''Missing id''] else []);
               es = es @ (if trs_type trs = 0 then [''Missing type''] else []);
               es = es @ (if senderAddress trs = 0 then [''Missing sender address''] else []);
               es = es @ (if senderPublicKey trs = [] then [''Missing sender public key''] else []);
               es = es @ (if \<not> truthy (signature trs) then [''Missing signature''] else []);
               es = es @ (if fee trs = 0 then [''Missing fee''] else []);
               es = es @ (if salt trs = [] then [''Missing salt''] else []);
               es = es @ (if createdAt trs = 0 then [''Missing creation time''] else []);
               es = es @ (if trs_type trs = SEND env
                          then (if amount (asset trs) = 0 then [''Missing amount''] else [])
                             @ (if amount (asset trs) < 0 \<or> 10 ^ 21 \<le> \<bar>amount (asset trs)\<bar>
                                then [''Invalid amount''] else [])
                          else []);
               verifyResponse = sv_validate (getTransactionServiceByType env (trs_type trs)) trs sender;
               es = es @ (if \<not> success verifyResponse then errors verifyResponse else [])
           in \<lparr>errors = es\<rparr>))"

text \<open>The three verifiers \<open>return undefined\<close>: \<open>None\<close> is \<open>undefined\<close>.\<close>

definition verifyBytes :: "byte list \<Rightarrow> string \<Rightarrow> string \<Rightarrow> IFunctionResponse option" where
  "verifyBytes bytes pk sig = None"

definition verifySecondSignature :: "Transaction \<Rightarrow> string \<Rightarrow> string \<Rightarrow> IFunctionResponse option" where
  "verifySecondSignature trs pk sig = None"

definition verifySignature :: "Transaction \<Rightarrow> string \<Rightarrow> string \<Rightarrow> IFunctionResponse option" where
  "verifySignature trs pk sig = None"

text \<open>
  \<open>verifyUnconfirmed\<close> assigns \<open>trs.fee\<close> and \<open>trs.id\<close>, so it returns the transaction
  with its response.
\<close>

definition verifyUnconfirmed ::
  "Env \<Rightarrow> Transaction \<Rightarrow> Account \<Rightarrow> bool \<Rightarrow> error + Transaction \<times> ResponseEntity" where
  "verifyUnconfirmed env trs sender checkExists =
     (let fee' = calculateUnconfirmedFee env trs sender
      in bindE (if fee' \<noteq> fee trs
                then bindE (getId env (trs\<lparr>fee := fee'\<rparr>)) (\<lambda>i. Inr (trs\<lparr>fee := fee', trs_id := i\<rparr>))
                else Inr trs) (\<lambda>trs.
         if checkExists \<and> fr_success (isConfirmed env trs)
         then Inr (trs, \<lparr>errors = [''Transaction is already confirmed: '' @ trs_id trs]\<rparr>)
         else
           (let senderBalanceResponse =
                  (if trs_type trs = SEND env
                   then checkBalance env (amount (asset trs) + fee trs) trs sender
                   else \<lparr>errors = []\<rparr>)
            in if trs_type trs = SEND env \<and> \<not> success senderBalanceResponse
               then Inr (trs, senderBalanceResponse)
               else Inr (trs, sv_verifyUnconfirmed
                                (getTransactionServiceByType env (trs_type trs)) trs sender))))"

section \<open>Sender-conflict resolution (checkSenderTransactions)\<close>

text \<open>
  The state \<open>checkSenderTransactions\<close> works on: the pool and the queue, the accounts of
  \<open>AccountRepo\<close> (the account objects, by address), the two arguments
  \<open>verifiedTransactions\<close> and \<open>accountsMap\<close>, which the function mutates, and the record
  of the calls of \<open>calculateUndoUnconfirmed\<close> (the id of the transaction passed, in call
  order). \<open>accountsMap\<close> holds references to the objects of \<open>AccountRepo\<close>: it maps a key
  to the address under which the object is stored, and a mutation of \<open>sender\<close> is a
  mutation of that stored object.
\<close>

record PoolState =
  pool :: "Transaction list"
  queue :: "Transaction list"
  accounts :: "int \<Rightarrow> Account option"
  accountsMap :: "int \<Rightarrow> int option"
  verifiedTransactions :: "string set"
  undoCalls :: "string list"

text \<open>
  Modelled from the spec: \<open>TransactionPool\<close> and \<open>TransactionQueue\<close>
  (core/service/transactionPool, transactionQueue) are not under src/. Section 4.7: the
  pool is indexed by sender address and by recipient address, in order; \<open>remove\<close> takes
  the transaction out; section 4.6: \<open>push\<close> appends to the queue.
\<close>

definition getBySenderAddress :: "int \<Rightarrow> Transaction list \<Rightarrow> Transaction list" where
  "getBySenderAddress a p = filter (\<lambda>t. senderAddress t = a) p"

definition getByRecipientAddress :: "Env \<Rightarrow> int \<Rightarrow> Transaction list \<Rightarrow> Transaction list" where
  "getByRecipientAddress env a p =
     filter (\<lambda>t. trs_type t = SEND env \<and> recipientAddress (asset t) = a) p"

definition TransactionPool_remove :: "Transaction \<Rightarrow> Transaction list \<Rightarrow> Transaction list" where
  "TransactionPool_remove t p = filter (\<lambda>x. trs_id x \<noteq> trs_id t) p"

definition TransactionQueue_push :: "Transaction \<Rightarrow> Transaction list \<Rightarrow> Transaction list" where
  "TransactionQueue_push t q = q @ [t]"

text \<open>\<open>Array.prototype.sort\<close> with a comparison function: a stable sort.\<close>

fun insort_by :: "('a \<Rightarrow> 'a \<Rightarrow> bool) \<Rightarrow> 'a \<Rightarrow> 'a list \<Rightarrow> 'a list" where
  "insort_by lt x [] = [x]"
| "insort_by lt x (y # ys) = (if lt x y then x # y # ys else y # insort_by lt x ys)"

definition sort_by :: "('a \<Rightarrow> 'a \<Rightarrow> bool) \<Rightarrow> 'a list \<Rightarrow> 'a list" where
  "sort_by lt xs = foldl (\<lambda>acc x. insort_by lt x acc) [] xs"

text \<open>
  The body of the \<open>for\<close> loop over \<open>senderTransactions\<close> (the list the pool returns
  when \<open>checkSenderTransactions\<close> is entered), on the transactions from index \<open>i\<close> on: \<open>senderTransactions.slice(i, senderTransactions.length)\<close> has as many
  elements as that rest, and its \<open>forEach\<close> calls
  \<open>calculateUndoUnconfirmed(senderTrs, sender)\<close> once for each of them. The recursive
  call on the recipient takes one unit of fuel.
\<close>

definition lookup_sender :: "int \<Rightarrow> PoolState \<Rightarrow> (int \<times> PoolState) option" where
  "lookup_sender a st =
     (case accountsMap st a of
        Some k \<Rightarrow> Some (k, st)
      | None \<Rightarrow>
          (case accounts st a of
             None \<Rightarrow> None
           | Some sender \<Rightarrow> Some (a, st\<lparr>accountsMap := (accountsMap st)(address sender \<mapsto> a)\<rparr>)))"

definition subtract_later :: "Env \<Rightarrow> Transaction list \<Rightarrow> Account \<Rightarrow> Account" where
  "subtract_later env later sender =
     fold (\<lambda>trs s. if trs_type trs = SEND env
                    then s\<lparr>actualBalance := actualBalance s - amount (asset trs)\<rparr> else s)
       later sender"

fun cst_loop :: "nat \<Rightarrow> Env \<Rightarrow> int \<Rightarrow> Transaction list \<Rightarrow> PoolState \<Rightarrow> error + PoolState" where
  "cst_loop fuel env a [] st = Inr st"
| "cst_loop fuel env a (senderTrs # rest) st =
     (if trs_id senderTrs \<in> verifiedTransactions st then cst_loop fuel env a rest st
      else
        (case lookup_sender a st of
           None \<Rightarrow> Inl TypeError
         | Some (k, st1) \<Rightarrow>
            (case accounts st1 k of
               None \<Rightarrow> Inl TypeError
             | Some sender \<Rightarrow>
                (let n = length (senderTrs # rest);
                     sender1 = (calculateUndoUnconfirmed env senderTrs ^^ n) sender;
                     st2 = st1\<lparr>undoCalls := undoCalls st1 @ replicate n (trs_id senderTrs)\<rparr>;
                     transactions = sort_by (transactionSortFunc env)
                                      (senderTrs # getByRecipientAddress env a (pool st2));
                     later = tl (dropWhile (\<lambda>x. x \<noteq> senderTrs) transactions);
                     sender2 = subtract_later env later sender1;
                     st3 = st2\<lparr>accounts := (accounts st2)(k \<mapsto> sender2)\<rparr>;
                     verifyStatus = TransactionQueue_verify env senderTrs sender2
                 in if success verifyStatus
                    then cst_loop fuel env a rest
                           (st3\<lparr>verifiedTransactions :=
                                  insert (trs_id senderTrs) (verifiedTransactions st3)\<rparr>)
                    else
                      (let st4 = st3\<lparr>pool := TransactionPool_remove senderTrs (pool st3),
                                      queue := TransactionQueue_push senderTrs (queue st3)\<rparr>
                       in if trs_type senderTrs = SEND env
                          then (case fuel of
                                  0 \<Rightarrow> Inl OutOfFuel
                                | Suc f \<Rightarrow>
                                    (case cst_loop f env (recipientAddress (asset senderTrs))
                                            (getBySenderAddress (recipientAddress (asset senderTrs))
                                               (pool st4)) st4 of
                                       Inl e \<Rightarrow> Inl e
                                     | Inr st5 \<Rightarrow> cst_loop fuel env a rest st5))
                          else cst_loop fuel env a rest st4)))))"

definition checkSenderTransactions :: "nat \<Rightarrow> Env \<Rightarrow> int \<Rightarrow> PoolState \<Rightarrow> error + PoolState" where
  "checkSenderTransactions fuel env senderAddr st =
     cst_loop fuel env senderAddr (getBySenderAddress senderAddr (pool st)) st"

section \<open>The header layout, field by field\<close>

text \<open>
  The layout of section 4.1 of the specification, with the widths the source gives the
  fields: a field of width \<open>n\<close> holds the first \<open>n\<close> bytes of its content and zeros
  after them. \<open>header_fields\<close> is the sequence of the fields from offset 0; it is what
  \<open>getBytes\<close> is compared with below.
\<close>

definition field :: "nat \<Rightarrow> byte list \<Rightarrow> byte list" where
  "field n d = take n d @ replicate (n - length d) 0"

definition opt_hex :: "string option \<Rightarrow> byte list" where
  "opt_hex v = (if truthy v then hex_decode (the v) else [])"

definition header_fields :: "Env \<Rightarrow> Transaction \<Rightarrow> byte list" where
  "header_fields env trs =
     (let L = BUFFER_LEN env
      in field (HEX L) (utf8_fit (HEX L) (salt trs))
         @ le_bytes 1 (trs_type trs)
         @ le_bytes 4 (createdAt trs)
         @ field (HEX L) (hex_decode (senderPublicKey trs))
         @ (if trs_type trs = SEND env
            then le_bytes 8 (recipientAddress (asset trs)) @ le_bytes 8 (amount (asset trs))
            else replicate (INT64 L + INT64 L) 0)
         @ field (DOUBLE_HEX L) (opt_hex (signature trs))
         @ field (DOUBLE_HEX L) (opt_hex (secondSignature trs)))"

definition transfer_width :: "Env \<Rightarrow> Transaction \<Rightarrow> nat" where
  "transfer_width env trs =
     (if trs_type trs = SEND env then 16 else INT64 (BUFFER_LEN env) + INT64 (BUFFER_LEN env))"

section \<open>Block processing (Process)\<close>

text \<open>
  A block as the block processor reads it. \<open>timestamp\<close> is the field the specification
  calls \<open>createdAt\<close>. The chain is the list of its blocks, the last block first.
\<close>

record Block =
  block_id :: string
  height :: int
  previousBlock :: string
  timestamp :: int
  generatorPublicKey :: string
  transactions :: "Transaction list"

text \<open>The calls the processor makes to the modules it drives, in order.\<close>

datatype call =
  Fork int
  | ObjectNormalize
  | ValidateBlockSlot
  | VerifyReceipt
  | DeleteLastBlock
  | ProcessBlock string

record Node =
  blockchain :: "Block list"
  txpool :: "Transaction list"
  locked :: bool
  calls :: "call list"

text \<open>
  What the processor calls and is not under src/: \<open>__private.loaded\<close>,
  \<open>modules.loader.syncing()\<close> and \<open>modules.rounds.ticking()\<close>;
  \<open>library.logic.block.objectNormalize\<close> and \<open>create\<close>, which throw or return a
  block; \<open>slots.calcRound\<close>, \<open>modules.rounds.getSlotDelegatesCount\<close> and the two slot
  validators of \<open>modules.delegates\<close>, which pass an error or nothing to their callback;
  \<open>modules.blocks.verify.verifyReceipt\<close>, which returns \<open>{ verified, errors }\<close>; the
  verdict of \<open>newProcessBlock\<close> on a block and a chain; and of \<open>modules.transactions\<close>
  the transactions \<open>removeFromPool\<close> takes out of the pool for a block, the conflict
  resolution \<open>returnToQueueConflictedTransactionFromPool\<close> and the number of transactions
  a block takes.
\<close>

record BlockEnv =
  loaded :: bool
  syncing :: bool
  ticking :: bool
  objectNormalize :: "Block \<Rightarrow> string + Block"
  block_create :: "IKeyPair \<Rightarrow> int \<Rightarrow> Block option \<Rightarrow> Transaction list \<Rightarrow> string + Block"
  calcRound :: "int \<Rightarrow> int"
  getSlotDelegatesCount :: "int \<Rightarrow> int"
  validateBlockSlotAgainstPreviousRound :: "Block \<Rightarrow> string option"
  delegates_validateBlockSlot :: "Block \<Rightarrow> string option"
  verifyReceipt :: "Block \<Rightarrow> bool \<times> string list"
  processBlockError :: "Block \<Rightarrow> Block list \<Rightarrow> string option"
  removedFromPool :: "Transaction list \<Rightarrow> Transaction list \<Rightarrow> Transaction list"
  returnToQueueConflicted :: "Transaction list \<Rightarrow> string + Transaction list"
  maxTxsPerBlock :: nat

text \<open>
  Modelled from the spec: \<open>modules.blocks.chain.deleteLastBlock\<close>,
  \<open>modules.blocks.verify.newProcessBlock\<close> and the pool operations of
  \<open>modules.transactions\<close> are not under src/. Section 4.8: \<open>deleteLastBlock\<close> drops the
  head of the chain. Section 4.9: \<open>processBlock\<close> verifies the block and, on success,
  pushes it on the chain; a failure aborts with the chain as it was. Section 4.9 and 4.7:
  block generation drains up to \<open>MAX_TX_PER_BLOCK\<close> transactions from the pool (the pool
  is kept in the order of block formation), \<open>pushInPool\<close> puts transactions back, and one
  lock guards pool and queue.
\<close>

definition deleteLastBlock :: "Node \<Rightarrow> string + Node" where
  "deleteLastBlock st =
     (case blockchain st of
        [] \<Rightarrow> Inl ''No block to delete''
      | b # rest \<Rightarrow> Inr (st\<lparr>blockchain := rest, calls := calls st @ [DeleteLastBlock]\<rparr>))"

definition newProcessBlock :: "BlockEnv \<Rightarrow> Block \<Rightarrow> Node \<Rightarrow> string + Node" where
  "newProcessBlock env block st =
     (case processBlockError env block (blockchain st) of
        Some e \<Rightarrow> Inl e
      | None \<Rightarrow> Inr (st\<lparr>blockchain := block # blockchain st,
                         calls := calls st @ [ProcessBlock (block_id block)]\<rparr>))"

definition removeFromPool :: "BlockEnv \<Rightarrow> Transaction list \<Rightarrow> Node \<Rightarrow> Transaction list \<times> Node" where
  "removeFromPool env trs st =
     (let removed = removedFromPool env trs (txpool st)
      in (removed, st\<lparr>txpool := filter (\<lambda>t. t \<notin> set removed) (txpool st)\<rparr>))"

definition pushInPool :: "Transaction list \<Rightarrow> Node \<Rightarrow> Node" where
  "pushInPool trs st = st\<lparr>txpool := txpool st @ trs\<rparr>"

definition lockTransactionPoolAndQueue :: "Node \<Rightarrow> Node" where
  "lockTransactionPoolAndQueue st = st\<lparr>locked := True\<rparr>"

definition unlockTransactionPoolAndQueue :: "Node \<Rightarrow> Node" where
  "unlockTransactionPoolAndQueue st = st\<lparr>locked := False\<rparr>"

definition getUnconfirmedTransactionsForBlockGeneration ::
  "BlockEnv \<Rightarrow> Node \<Rightarrow> Transaction list \<times> Node" where
  "getUnconfirmedTransactionsForBlockGeneration env st =
     (take (maxTxsPerBlock env) (txpool st),
      st\<lparr>txpool := drop (maxTxsPerBlock env) (txpool st)\<rparr>)"

definition lastBlock_get :: "Node \<Rightarrow> Block option" where
  "lastBlock_get st = (case blockchain st of [] \<Rightarrow> None | b # rest \<Rightarrow> Some b)"

text \<open>
  \<open>newGenerateBlock\<close>: the outcome is that the promise resolves or that it rejects with
  the error thrown; the state is returned in both cases.
\<close>

datatype outcome = Resolved | Rejected string

definition newGenerateBlock :: "BlockEnv \<Rightarrow> IKeyPair \<Rightarrow> int \<Rightarrow> Node \<Rightarrow> outcome \<times> Node" where
  "newGenerateBlock env keypair ts st =
     (let (trs, st1) = getUnconfirmedTransactionsForBlockGeneration env st;
          st2 = lockTransactionPoolAndQueue st1
      in case block_create env keypair ts (lastBlock_get st2) trs of
           Inl e \<Rightarrow> (Rejected e, st2)
         | Inr block \<Rightarrow>
             (case newProcessBlock env block st2 of
                Inr st3 \<Rightarrow> (Resolved, unlockTransactionPoolAndQueue st3)
              | Inl e \<Rightarrow> (Resolved, unlockTransactionPoolAndQueue (pushInPool trs st2))))"

text \<open>
  \<open>__private.validateBlockSlot\<close>. \<open>x % n === 0\<close> is false for \<open>n = 0\<close> (the remainder
  is \<open>NaN\<close>).
\<close>

definition validateBlockSlot :: "BlockEnv \<Rightarrow> Block \<Rightarrow> Block \<Rightarrow> string option" where
  "validateBlockSlot env block lastBlock =
     (let roundNextBlock = calcRound env (height block);
          roundLastBlock = calcRound env (height lastBlock);
          activeDelegates = getSlotDelegatesCount env (height block)
      in if (activeDelegates \<noteq> 0 \<and> height lastBlock mod activeDelegates = 0)
            \<or> roundLastBlock < roundNextBlock
         then validateBlockSlotAgainstPreviousRound env block
         else delegates_validateBlockSlot env block)"

text \<open>
  \<open>__private.newReceiveBlock\<close>: it catches what the processing throws, so it always
  resolves.
\<close>

definition newReceiveBlock :: "BlockEnv \<Rightarrow> Block \<Rightarrow> Node \<Rightarrow> Node" where
  "newReceiveBlock env block st =
     (let (removedTransactions, st1) = removeFromPool env (transactions block) st;
          st2 = lockTransactionPoolAndQueue st1
      in case newProcessBlock env block st2 of
           Inl e \<Rightarrow> unlockTransactionPoolAndQueue (pushInPool removedTransactions st2)
         | Inr st3 \<Rightarrow>
             (let transactionForReturn =
                    filter (\<lambda>removedTrs. find (\<lambda>trs. trs_id trs = trs_id removedTrs)
                                             (transactions block) = None)
                      removedTransactions;
                  st4 = pushInPool transactionForReturn st3
              in case returnToQueueConflicted env (txpool st4) of
                   Inl e \<Rightarrow> unlockTransactionPoolAndQueue (pushInPool removedTransactions st4)
                 | Inr p \<Rightarrow> unlockTransactionPoolAndQueue (st4\<lparr>txpool := p\<rparr>)))"

text \<open>
  The test of both fork handlers: the last block stands when it is older or, at the same
  age, when the received id is greater (a comparison of strings).
\<close>

definition lastBlockStands :: "Block \<Rightarrow> Block \<Rightarrow> bool" where
  "lastBlockStands block lastBlock =
     (timestamp block > timestamp lastBlock
      \<or> (timestamp block = timestamp lastBlock
          \<and> string_less (block_id lastBlock) (block_id block)))"

text \<open>
  The three checks that both handlers run first with \<open>async.series\<close>, which stops at
  the first function that passes an error: the result is the error with the state, or the
  state after the checks. \<open>verifyReceipt\<close> passes \<open>check.errors[0]\<close>, which is no
  error when the list is empty.
\<close>

definition checkForkBlock :: "BlockEnv \<Rightarrow> Block \<Rightarrow> Block \<Rightarrow> Node \<Rightarrow> string \<times> Node + Node" where
  "checkForkBlock env block lastBlock st =
     (let st1 = st\<lparr>calls := calls st @ [ObjectNormalize]\<rparr>
      in case objectNormalize env block of
           Inl err \<Rightarrow> Inl (err, st1)
         | Inr tmpBlock \<Rightarrow>
             (let st2 = st1\<lparr>calls := calls st1 @ [ValidateBlockSlot]\<rparr>
              in case validateBlockSlot env tmpBlock lastBlock of
                   Some err \<Rightarrow> Inl (err, st2)
                 | None \<Rightarrow>
                     (let st3 = st2\<lparr>calls := calls st2 @ [VerifyReceipt]\<rparr>;
                          check = verifyReceipt env tmpBlock
                      in if fst check then Inr st3
                         else case snd check of
                                [] \<Rightarrow> Inr st3
                              | err # errs \<Rightarrow> Inl (err, st3))))"

text \<open>
  The handlers return the error passed to the callback, if any, and the state. The
  comparison of the generator keys in \<open>receiveForkFive\<close> only writes to the log.
\<close>

definition receiveForkOne :: "BlockEnv \<Rightarrow> Block \<Rightarrow> Block \<Rightarrow> Node \<Rightarrow> string option \<times> Node" where
  "receiveForkOne env block lastBlock st =
     (let st0 = st\<lparr>calls := calls st @ [Fork 1]\<rparr>
      in if lastBlockStands block lastBlock then (None, st0)
         else case checkForkBlock env block lastBlock st0 of
                Inl (err, st1) \<Rightarrow> (Some err, st1)
              | Inr st1 \<Rightarrow>
                  (case deleteLastBlock st1 of
                     Inl err \<Rightarrow> (Some err, st1)
                   | Inr st2 \<Rightarrow>
                       (case deleteLastBlock st2 of
                          Inl err \<Rightarrow> (Some err, st2)
                        | Inr st3 \<Rightarrow> (None, st3))))"

definition receiveForkFive :: "BlockEnv \<Rightarrow> Block \<Rightarrow> Block \<Rightarrow> Node \<Rightarrow> string option \<times> Node" where
  "receiveForkFive env block lastBlock st =
     (let st0 = st\<lparr>calls := calls st @ [Fork 5]\<rparr>
      in if lastBlockStands block lastBlock then (None, st0)
         else case checkForkBlock env block lastBlock st0 of
                Inl (err, st1) \<Rightarrow> (Some err, st1)
              | Inr st1 \<Rightarrow>
                  (case deleteLastBlock st1 of
                     Inl err \<Rightarrow> (Some err, st1)
                   | Inr st2 \<Rightarrow> (None, newReceiveBlock env block st2)))"

text \<open>
  \<open>onReceiveBlock\<close>, the function it adds to the sequence. \<open>__private.loaded\<close> and
  \<open>modules\<close> are both set by \<open>onBind\<close> only: before it the test
  \<open>!__private.loaded || ...\<close> is true without reading \<open>modules\<close>, and the second debug
  line, which calls \<open>modules.loader.syncing()\<close>, throws a \<open>TypeError\<close>. A loaded node
  that is syncing, or whose round is ticking, returns at once and leaves the state as it
  is. With an empty chain \<open>lastBlock.id\<close> is a \<open>TypeError\<close>.
\<close>

definition onReceiveBlock :: "BlockEnv \<Rightarrow> Block \<Rightarrow> Node \<Rightarrow> error + string option \<times> Node" where
  "onReceiveBlock env block st =
     (if \<not> loaded env then Inl TypeError
      else if syncing env \<or> ticking env then Inr (None, st)
      else case lastBlock_get st of
             None \<Rightarrow> Inl TypeError
           | Some lastBlock \<Rightarrow>
               if previousBlock block = block_id lastBlock
                  \<and> height lastBlock + 1 = height block
               then Inr (None, newReceiveBlock env block st)
               else if previousBlock block \<noteq> block_id lastBlock
                       \<and> height lastBlock + 1 = height block
               then Inr (receiveForkOne env block lastBlock st)
               else if previousBlock block = previousBlock lastBlock
                       \<and> height block = height lastBlock
                       \<and> block_id block \<noteq> block_id lastBlock
               then Inr (receiveForkFive env block lastBlock st)
               else Inr (None, st))"

text \<open>
  The number a block id denotes: an id is the hex rendering of a hash, 64 digits
  \<open>0-9a-f\<close> (section 3 of the specification; \<open>getId\<close> above produces the same form).
\<close>

definition lower_hex :: "char \<Rightarrow> bool" where
  "lower_hex c =
     (let n = (of_char c :: nat) in (48 \<le> n \<and> n \<le> 57) \<or> (97 \<le> n \<and> n \<le> 102))"

definition digit_value :: "char \<Rightarrow> nat" where
  "digit_value c = (case hex_digit c of None \<Rightarrow> 0 | Some d \<Rightarrow> d)"

definition hex_value :: "string \<Rightarrow> nat" where
  "hex_value s = foldl (\<lambda>acc c. 16 * acc + digit_value c) 0 s"

section \<open>Example inputs\<close>

text \<open>
  A per-type service that accepts everything, charges the fee the transaction carries
  and, to undo, gives the fee (and the amount of a transfer) back to the sender; and an
  environment with the type code 10 for SEND. The hash is a stand-in, since no property
  below depends on it.
\<close>

definition example_service :: IAssetService where
  "example_service =
     \<lparr>sv_getBytes = (\<lambda>t. []),
      sv_validate = (\<lambda>t a. \<lparr>errors = []\<rparr>),
      sv_verifyUnconfirmed = (\<lambda>t a. \<lparr>errors = []\<rparr>),
      sv_calculateUndoUnconfirmed =
        (\<lambda>t a. a\<lparr>actualBalance := actualBalance a + fee t
                     + (if trs_type t = 10 then amount (asset t) else 0)\<rparr>),
      sv_calculateFee = (\<lambda>t a. fee t)\<rparr>"

definition example_env :: Env where
  "example_env =
     \<lparr>SEND = 10,
      BUFFER_LEN = \<lparr>HEX = 32, INT64 = 8, DOUBLE_HEX = 64\<rparr>,
      TRANSACTION_BUFFER_SIZE = 213,
      genesisBlock_id = ''cbb9449abb9672d33fa2eb200b1c8b03db7c6572dfb6e59dc334c0ab82b63ab0'',
      getTransactionServiceByType = (\<lambda>ty. example_service),
      sha256 = (\<lambda>bs. take 32 bs),
      ed_sign = (\<lambda>h kp. h @ kp_privateKey kp),
      TransactionRepo_isExist = (\<lambda>i. False),
      TransactionQueue_verify =
        (\<lambda>t a. if amount (asset t) + fee t \<le> actualBalance a then \<lparr>errors = []\<rparr>
               else \<lparr>errors = [''Not enough money'']\<rparr>),
      transactionSortFunc =
        (\<lambda>x y. createdAt x < createdAt y \<or> (createdAt x = createdAt y \<and> string_less (trs_id x) (trs_id y)))\<rparr>"

definition example_send :: "string \<Rightarrow> int \<Rightarrow> int \<Rightarrow> int \<Rightarrow> int \<Rightarrow> int \<Rightarrow> Transaction" where
  "example_send i created from to amnt f =
     \<lparr>trs_id = i, blockId = None, trs_type = 10, createdAt = created,
      senderPublicKey = ''83cb3d8641c8e73735cc1b70c915602ffcb6e5a68f14a71056511699050a1a05'',
      senderAddress = from,
      signature = Some ''eb76d2ad7cd5f609'', secondSignature = None,
      salt = ''0123456789abcdef0123456789abcdef'', fee = f,
      asset = \<lparr>recipientAddress = to, amount = amnt\<rparr>\<rparr>"

text \<open>A transfer that carries a signature and a second signature of 64 bytes each.\<close>

definition example_signed :: Transaction where
  "example_signed =
     (example_send ''ab'' 5 1 2 90 10)
       \<lparr>signature := Some ''eb76d2ad7cd5f609f230c2eeaac26ead13b8893ad411f99a4aaf2205d4776c3ea2bac640d84d760002e2c1014d92213679d99784c8905ec58d601e1b481a9205'',
        secondSignature := Some ''5029a184b1e106d85ce5098c48799d97631229d4101c2e200067d48d046cab2ae3c6774d5022faa4a99f114da3988b31dae62caaee2c032f906f5dc7da2d67be''\<rparr>"

text \<open>The constants for which the sum of the field widths is 117 bytes.\<close>

definition example_env_117 :: Env where
  "example_env_117 =
     example_env\<lparr>BUFFER_LEN := \<lparr>HEX = 16, INT64 = 8, DOUBLE_HEX = 32\<rparr>,
                 TRANSACTION_BUFFER_SIZE := 117\<rparr>"

definition example_account :: "int \<Rightarrow> int \<Rightarrow> int \<Rightarrow> Account" where
  "example_account a bal staked =
     \<lparr>address = a,
      publicKey = ''83cb3d8641c8e73735cc1b70c915602ffcb6e5a68f14a71056511699050a1a05'',
      actualBalance = bal, totalStakedAmount = staked\<rparr>"

text \<open>
  Two transfers of sender 1 in the pool, of 30 and of 5 with fee 1 each, applied to a
  balance of 50; a block has since spent 61 of sender 1, so the balance is \<open>-48\<close>.
\<close>

definition example_conflict :: PoolState where
  "example_conflict =
     \<lparr>pool = [example_send ''t1'' 1 1 2 30 1, example_send ''t2'' 2 1 2 5 1],
      queue = [],
      accounts = [1 \<mapsto> example_account 1 (- 48) 0, 2 \<mapsto> example_account 2 0 0],
      accountsMap = Map.empty,
      verifiedTransactions = {},
      undoCalls = []\<rparr>"

text \<open>
  A chain of three blocks (the genesis block, the block of height 2 and the head \<open>B1\<close>
  of height 3), with two transactions in the pool, and an environment in which every
  check passes and a block is processed when it links to the head of the chain.
\<close>

definition example_block :: "string \<Rightarrow> int \<Rightarrow> string \<Rightarrow> int \<Rightarrow> Block" where
  "example_block i h prev ts =
     \<lparr>block_id = i, height = h, previousBlock = prev, timestamp = ts,
      generatorPublicKey = ''83cb3d8641c8e73735cc1b70c915602ffcb6e5a68f14a71056511699050a1a05'',
      transactions = []\<rparr>"

definition id_G :: string where
  "id_G = ''cbb9449abb9672d33fa2eb200b1c8b03db7c6572dfb6e59dc334c0ab82b63ab0''"

definition id_P :: string where
  "id_P = ''bf230d87d2c346a598b6547e7dcbea3d52baac4dea6b1e8254ed87950c991ca4''"

definition id_B1 :: string where
  "id_B1 = ''ff00000000000000000000000000000000000000000000000000000000000001''"

definition id_B2 :: string where
  "id_B2 = ''aa00000000000000000000000000000000000000000000000000000000000002''"

definition id_F :: string where
  "id_F = ''0c00000000000000000000000000000000000000000000000000000000000003''"

definition example_node :: Node where
  "example_node =
     \<lparr>blockchain = [example_block id_B1 3 id_P 100, example_block id_P 2 id_G 90,
                    example_block id_G 1 [] 0],
      txpool = [example_send ''t1'' 1 1 2 30 1, example_send ''t2'' 2 1 2 5 1],
      locked = False,
      calls = []\<rparr>"

definition example_block_env :: BlockEnv where
  "example_block_env =
     \<lparr>loaded = True, syncing = False, ticking = False,
      objectNormalize = (\<lambda>b. Inr b),
      block_create =
        (\<lambda>kp ts prev trs.
           case prev of
             None \<Rightarrow> Inl ''No previous block''
           | Some p \<Rightarrow> Inr \<lparr>block_id = id_F, height = height p + 1,
                            previousBlock = block_id p, timestamp = ts,
                            generatorPublicKey = to_hex (kp_publicKey kp),
                            transactions = trs\<rparr>),
      calcRound = (\<lambda>h. (h + 100) div 101),
      getSlotDelegatesCount = (\<lambda>h. 101),
      validateBlockSlotAgainstPreviousRound = (\<lambda>b. None),
      delegates_validateBlockSlot = (\<lambda>b. None),
      verifyReceipt = (\<lambda>b. (True, [])),
      processBlockError =
        (\<lambda>b c. case c of
                 [] \<Rightarrow> Some ''No last block''
               | l # r \<Rightarrow> if previousBlock b = block_id l \<and> height b = height l + 1
                           then None else Some ''Invalid previous block''),
      removedFromPool = (\<lambda>trs p. filter (\<lambda>t. trs_id t \<in> set (map trs_id trs)) p),
      returnToQueueConflicted = (\<lambda>p. Inr p),
      maxTxsPerBlock = 25\<rparr>"

section \<open>Properties of the slot clock\<close>

lemma bitlen_le: "n < 2 ^ k \<Longrightarrow> bitlen n \<le> k"
proof (induction k arbitrary: n)
  case 0
  then show ?case by (subst bitlen.simps) simp
next
  case (Suc k)
  show ?case
  proof (cases "n = 0")
    case True
    then show ?thesis by (subst bitlen.simps) simp
  next
    case False
    have "n div 2 < 2 ^ k"
      using Suc.prems by simp
    then have "bitlen (n div 2) \<le> k"
      by (rule Suc.IH)
    then show ?thesis
      using False by (subst bitlen.simps) simp
  qed
qed

lemma round_double_exact: "\<bar>n\<bar> < 2 ^ 53 \<Longrightarrow> round_double n = n"
proof -
  assume a: "\<bar>n\<bar> < 2 ^ 53"
  have "nat \<bar>n\<bar> < 2 ^ 53"
    using a by (simp add: nat_less_iff)
  then have "bitlen (nat \<bar>n\<bar>) \<le> 53"
    by (rule bitlen_le)
  then show ?thesis
    by (simp add: round_double_def Let_def)
qed

lemma rne_div_exact: "0 < b \<Longrightarrow> rne_div (x * b) b = x"
  by (simp add: rne_div_def Let_def)

lemma floor_div_double_exact:
  assumes "0 \<le> x" and "x < 2 ^ 53" and "0 < b"
  shows "floor_div_double (x * b) b = x"
proof -
  have n: "\<bar>x * b\<bar> = x * b"
    using assms by simp
  have q: "x * b div b = x"
    using assms by simp
  have "nat x < 2 ^ 53"
    using assms by (simp add: nat_less_iff)
  then have e: "bitlen (nat x) \<le> 53"
    by (rule bitlen_le)
  define u :: int where "u = 2 ^ (53 - bitlen (nat x))"
  have u: "0 < u"
    by (simp add: u_def)
  have "rne_div (x * b * u) b = x * u"
    using rne_div_exact [OF assms(3), of "x * u"] by (simp add: mult.commute mult.left_commute)
  moreover have "x * u div u = x"
    using u by simp
  moreover have "\<not> x * b < 0"
  proof -
    have "0 \<le> x * b"
      using assms(1,3) by (intro mult_nonneg_nonneg) simp_all
    then show ?thesis by simp
  qed
  ultimately show ?thesis
    using e by (simp add: floor_div_double_def Let_def n q u_def)
qed

text \<open>
  C8, amended. For every non-negative integer slot number \<open>s\<close> with
  \<open>s * 10 < 2 ^ 53\<close>, converting the slot to its epoch time with \<open>getSlotTime\<close> and
  back with \<open>getSlotNumber\<close> (slot interval 10 seconds) gives \<open>s\<close> again: the product
  and the quotient are exact.
\<close>

theorem slot_roundtrip:
  "0 \<le> s \<Longrightarrow> s * 10 < 2 ^ 53 \<Longrightarrow> getSlotNumber (getSlotTime s) = s"
proof -
  assume s: "0 \<le> s" and b: "s * 10 < 2 ^ 53"
  have "getSlotTime s = s * 10"
    using s b round_double_exact [of "s * 10"] by (simp add: getSlotTime_def interval_def)
  moreover have "floor_div_double (s * 10) 10 = s"
    using s b by (intro floor_div_double_exact) simp_all
  ultimately show ?thesis
    by (simp add: getSlotNumber_def interval_def)
qed

text \<open>
  C8, as stated, for every non-negative integer slot number. It fails at the slot number
  \<open>1801439850948201\<close>, an integer below \<open>2 ^ 53\<close>: the product with 10 has 55 binary
  digits and lies halfway between two doubles, it is rounded to \<open>18014398509482008\<close>,
  and the floor of the tenth of that is the slot number before.
\<close>

lemma bitlen_eq: "2 ^ k \<le> n \<Longrightarrow> n < 2 ^ Suc k \<Longrightarrow> bitlen n = Suc k"
proof (induction k arbitrary: n)
  case 0
  then have "n = Suc 0" by simp
  then show ?case
    by (simp add: bitlen.simps [of "Suc 0"] bitlen.simps [of 0])
next
  case (Suc k)
  have "2 ^ k \<le> n div 2" "n div 2 < 2 ^ Suc k"
    using Suc.prems by simp_all
  then have "bitlen (n div 2) = Suc k"
    by (rule Suc.IH)
  moreover have "n \<noteq> 0"
    using Suc.prems by auto
  ultimately show ?case
    by (subst bitlen.simps) simp
qed

lemma slot_time_rounds: "getSlotTime 1801439850948201 = 18014398509482008"
proof -
  have "bitlen (nat \<bar>18014398509482010\<bar>) = Suc 54"
    by (rule bitlen_eq) simp_all
  then show ?thesis
    by (simp add: getSlotTime_def interval_def round_double_def rne_div_def Let_def)
qed

lemma slot_number_rounds: "getSlotNumber 18014398509482008 = 1801439850948200"
proof -
  have "bitlen (nat (\<bar>18014398509482008\<bar> div 10)) = Suc 50"
    by (rule bitlen_eq) simp_all
  then show ?thesis
    by (simp add: getSlotNumber_def interval_def floor_div_double_def rne_div_def Let_def)
qed

theorem slot_roundtrip_counterexample:
  "(0::int) \<le> 1801439850948201
   \<and> getSlotTime 1801439850948201 = 18014398509482008
   \<and> getSlotNumber (getSlotTime 1801439850948201) = 1801439850948200
   \<and> getSlotNumber (getSlotTime 1801439850948201) \<noteq> 1801439850948201"
  by (simp add: slot_time_rounds slot_number_rounds)

theorem slot_roundtrip_witness:
  "(0::int) \<le> 2 \<and> (2::int) * 10 < 2 ^ 53 \<and> getSlotNumber (getSlotTime 2) = 2"
  using slot_roundtrip [of 2] by simp

section \<open>Properties of validate\<close>

text \<open>
  C10. \<open>validate\<close> rejects every transaction whose fee is 0 or whose \<open>createdAt\<close> is 0:
  the result is a failure, with the message \<open>Missing fee\<close> in the first case and
  \<open>Missing creation time\<close> in the second, since the presence of a field is tested by
  truthiness. So a transaction created at epoch second 0 never passes validation.
\<close>

theorem validate_missing_fee_createdAt:
  "fee trs = 0 \<or> createdAt trs = 0 \<Longrightarrow>
     \<not> success (validate env (Some trs) sender)
     \<and> (fee trs = 0 \<longrightarrow> ''Missing fee'' \<in> set (errors (validate env (Some trs) sender)))
     \<and> (createdAt trs = 0 \<longrightarrow>
          ''Missing creation time'' \<in> set (errors (validate env (Some trs) sender)))"
proof -
  assume h: "fee trs = 0 \<or> createdAt trs = 0"
  have f: "fee trs = 0 \<Longrightarrow> ''Missing fee'' \<in> set (errors (validate env (Some trs) sender))"
    by (simp add: validate_def Let_def split del: if_split)
  have c: "createdAt trs = 0 \<Longrightarrow>
      ''Missing creation time'' \<in> set (errors (validate env (Some trs) sender))"
    by (simp add: validate_def Let_def split del: if_split)
  have s: "\<not> success (validate env (Some trs) sender)"
    using h f c by (auto simp: success_def)
  show ?thesis using f c s by blast
qed

theorem validate_missing_fee_createdAt_witness:
  "\<not> success (validate example_env (Some (example_send ''ab'' 0 1 2 30 0)) (example_account 1 50 0))
   \<and> ''Missing fee''
       \<in> set (errors (validate example_env (Some (example_send ''ab'' 0 1 2 30 0))
                  (example_account 1 50 0)))
   \<and> ''Missing creation time''
       \<in> set (errors (validate example_env (Some (example_send ''ab'' 0 1 2 30 0))
                  (example_account 1 50 0)))"
  using validate_missing_fee_createdAt
    [of "example_send ''ab'' 0 1 2 30 0" example_env "example_account 1 50 0"]
  by (simp add: example_send_def)

text \<open>
  C9, as stated: \<open>validate\<close> of a SEND transaction whose amount is 0 returns a failure
  whose error list contains an invalid-amount error. It fails: for the transfer of amount
  0 below, with a per-type service that reports nothing, the only message is
  \<open>Missing amount\<close>; \<open>Invalid amount\<close> is pushed for a negative or a non-integer
  amount only.
\<close>

theorem validate_zero_amount_counterexample:
  "validate example_env (Some (example_send ''ab'' 5 1 2 0 1)) (example_account 1 50 0)
     = \<lparr>errors = [''Missing amount'']\<rparr>
   \<and> ''Invalid amount''
       \<notin> set (errors (validate example_env (Some (example_send ''ab'' 5 1 2 0 1))
                  (example_account 1 50 0)))"
  by (simp add: validate_def example_env_def example_send_def example_service_def truthy_def
      success_def)

text \<open>
  C9, amended: \<open>validate\<close> of a SEND transaction whose amount is 0 returns a failure
  whose error list contains \<open>Missing amount\<close>; the list contains \<open>Invalid amount\<close>
  only when the per-type service reports it. The transaction is rejected.
\<close>

theorem validate_zero_amount:
  "trs_type trs = SEND env \<Longrightarrow> amount (asset trs) = 0 \<Longrightarrow>
     \<not> success (validate env (Some trs) sender)
     \<and> ''Missing amount'' \<in> set (errors (validate env (Some trs) sender))
     \<and> (''Invalid amount'' \<in> set (errors (validate env (Some trs) sender))
          \<longleftrightarrow> ''Invalid amount'' \<in> set (errors (sv_validate
                  (getTransactionServiceByType env (trs_type trs)) trs sender)))"
proof -
  assume t: "trs_type trs = SEND env" and a: "amount (asset trs) = 0"
  have m: "''Missing amount'' \<in> set (errors (validate env (Some trs) sender))"
    using t a by (simp add: validate_def Let_def split del: if_split)
  have i: "''Invalid amount'' \<in> set (errors (validate env (Some trs) sender))
          \<longleftrightarrow> ''Invalid amount'' \<in> set (errors (sv_validate
                  (getTransactionServiceByType env (trs_type trs)) trs sender))"
    using t a by (auto simp add: validate_def Let_def success_def)
  have s: "\<not> success (validate env (Some trs) sender)"
    using m by (auto simp: success_def)
  show ?thesis using m i s by blast
qed

theorem validate_zero_amount_witness:
  "trs_type (example_send ''ab'' 5 1 2 0 1) = SEND example_env
   \<and> amount (asset (example_send ''ab'' 5 1 2 0 1)) = 0
   \<and> \<not> success (validate example_env (Some (example_send ''ab'' 5 1 2 0 1))
                  (example_account 1 50 0))
   \<and> ''Missing amount''
       \<in> set (errors (validate example_env (Some (example_send ''ab'' 5 1 2 0 1))
                  (example_account 1 50 0)))"
  using validate_zero_amount
    [of "example_send ''ab'' 5 1 2 0 1" example_env "example_account 1 50 0"]
  by (simp add: example_send_def example_env_def)

section \<open>Properties of the balance check and of the signature verifiers\<close>

text \<open>
  C1. \<open>verifyUnconfirmed\<close> should accept a SEND only if amount plus fee does not exceed
  \<open>actualBalance - totalStakedAmount\<close>. \<open>checkBalance\<close> compares with \<open>actualBalance\<close>
  alone (its two TODO comments ask for the subtraction): the sender below has balance 100
  of which 50 are staked, and the transfer of 90 with fee 10 is accepted although it
  exceeds the spendable 50.
\<close>

theorem verifyUnconfirmed_ignores_stake:
  "verifyUnconfirmed example_env (example_send ''ab'' 5 1 2 90 10) (example_account 1 100 50) False
     = Inr (example_send ''ab'' 5 1 2 90 10, \<lparr>errors = []\<rparr>)
   \<and> amount (asset (example_send ''ab'' 5 1 2 90 10)) + fee (example_send ''ab'' 5 1 2 90 10)
       > actualBalance (example_account 1 100 50) - totalStakedAmount (example_account 1 100 50)"
  by (simp add: verifyUnconfirmed_def calculateUnconfirmedFee_def checkBalance_def bindE_def
      example_env_def example_send_def example_service_def example_account_def success_def
      isConfirmed_def)

text \<open>
  C7. \<open>verifySignature\<close> and \<open>verifyBytes\<close> should verify the Ed25519 signature, so
  that the signature \<open>sign\<close> produces verifies. In the source the two functions (and
  \<open>verifySecondSignature\<close>) return \<open>undefined\<close> on every input, also on the signature
  that \<open>sign\<close> has just produced.
\<close>

theorem verifySignature_undefined:
  "verifySignature trs pk sg = None \<and> verifyBytes bs pk sg = None
   \<and> verifySecondSignature trs pk sg = None
   \<and> (case sign env keyPair trs of
         Inl e \<Rightarrow> True
       | Inr sg' \<Rightarrow> verifySignature trs (to_hex (kp_publicKey keyPair)) sg'
                     \<noteq> Some \<lparr>fr_success = True, fr_errors = []\<rparr>)"
  by (simp add: verifySignature_def verifyBytes_def verifySecondSignature_def split: sum.split)

section \<open>Properties of checkSenderTransactions\<close>

text \<open>
  C5. For a pool transaction of the sender that fails re-verification,
  \<open>checkSenderTransactions\<close> should apply the unconfirmed undo once to that transaction
  and once to each later pool transaction of the sender. In the source the \<open>forEach\<close>
  over the slice ignores its element and undoes \<open>senderTrs\<close> each time, before the
  verification: with the two pool transactions \<open>t1\<close> and \<open>t2\<close> of sender 1, where
  \<open>t1\<close> fails re-verification, \<open>t1\<close> is undone twice and \<open>t2\<close> is not undone for
  that failure (its one undo is that of its own turn, although it verifies). \<open>t1\<close> is
  removed from the pool and pushed to the queue.
\<close>

theorem checkSenderTransactions_double_undo:
  "case checkSenderTransactions 1 example_env 1 example_conflict of
      Inl e \<Rightarrow> False
    | Inr st \<Rightarrow> undoCalls st = [''t1'', ''t1'', ''t2'']
         \<and> map trs_id (pool st) = [''t2'']
         \<and> map trs_id (queue st) = [''t1'']
         \<and> verifiedTransactions st = {''t2''}
         \<and> map_option actualBalance (accounts st 1) = Some 20"
  by (simp add: checkSenderTransactions_def example_conflict_def example_env_def example_send_def
     example_account_def example_service_def getBySenderAddress_def getByRecipientAddress_def
     lookup_sender_def calculateUndoUnconfirmed_def sort_by_def subtract_later_def success_def
     TransactionPool_remove_def TransactionQueue_push_def Let_def numeral_2_eq_2)

section \<open>Properties of getBytes\<close>

lemma length_field [simp]: "length (field n d) = n"
  by (simp add: field_def)

lemma length_le_bytes [simp]: "length (le_bytes n v) = n"
  by (simp add: le_bytes_def)

lemma length_utf8_fit: "length (utf8_fit n s) \<le> n"
proof (induction s arbitrary: n)
  case Nil
  show ?case by simp
next
  case (Cons c cs)
  show ?case
  proof (cases "length (utf8_char c) \<le> n")
    case True
    with Cons [of "n - length (utf8_char c)"] show ?thesis by (simp add: Let_def)
  next
    case False
    then show ?thesis by (simp add: Let_def)
  qed
qed

lemma put_zero:
  assumes "length pre = off" and "length d \<le> n" and "n \<le> k"
  shows "put (pre @ replicate k 0) off d = (pre @ field n d) @ replicate (k - n) 0"
proof -
  have "drop (off + length d) (pre @ replicate k 0) = replicate (k - length d) (0::byte)"
    using assms by simp
  moreover have "replicate (k - length d) (0::byte)
      = replicate (n - length d) 0 @ replicate (k - n) 0"
    using assms by (simp add: replicate_add [symmetric])
  ultimately show ?thesis
    using assms by (simp add: put_def field_def)
qed

lemma write_int_zero:
  assumes "length pre = off" and "n \<le> k"
  shows "write_int n (pre @ replicate k 0) v off
           = Inr ((pre @ le_bytes n v) @ replicate (k - n) 0, off + n)"
proof -
  have "put (pre @ replicate k 0) off (le_bytes n v)
          = (pre @ field n (le_bytes n v)) @ replicate (k - n) 0"
    using assms by (intro put_zero) simp_all
  then show ?thesis
    using assms by (simp add: write_int_def field_def)
qed

lemma Buffer_write_hex_zero:
  assumes "length pre = off" and "n \<le> k"
  shows "Buffer_write_hex (pre @ replicate k 0) s off n
           = Inr ((pre @ field n (hex_decode s)) @ replicate (k - n) 0)"
proof -
  have "put (pre @ replicate k 0) off (take n (hex_decode s))
          = (pre @ field n (take n (hex_decode s))) @ replicate (k - n) 0"
    using assms by (intro put_zero) simp_all
  moreover have "field n (take n (hex_decode s)) = field n (hex_decode s)"
    by (simp add: field_def min_def)
  ultimately show ?thesis
    using assms by (simp add: Buffer_write_hex_def min_def)
qed

lemma Buffer_write_utf8_zero:
  assumes "length pre = off" and "n \<le> k"
  shows "Buffer_write_utf8 (pre @ replicate k 0) s off n
           = Inr ((pre @ field n (utf8_fit n s)) @ replicate (k - n) 0)"
proof -
  have "put (pre @ replicate k 0) off (utf8_fit n s)
          = (pre @ field n (utf8_fit n s)) @ replicate (k - n) 0"
    using assms length_utf8_fit [of n s] by (intro put_zero) simp_all
  then show ?thesis
    using assms by (simp add: Buffer_write_utf8_def min_def)
qed

lemma skip_zero:
  assumes "n \<le> k"
  shows "pre @ replicate k (0::byte) = (pre @ field n []) @ replicate (k - n) 0"
  using assms by (simp add: field_def replicate_add [symmetric])

lemma writeNotNull_zero:
  assumes "length pre = off" and "n \<le> k"
  shows "writeNotNull (pre @ replicate k 0) v off n
           = Inr ((pre @ field n (hex_decode v)) @ replicate (k - n) 0, off + n)"
proof (cases "v = []")
  case True
  then show ?thesis
    using skip_zero [OF assms(2), of pre] by (simp add: writeNotNull_def)
next
  case False
  then show ?thesis
    using Buffer_write_hex_zero [OF assms, of v] by (simp add: writeNotNull_def)
qed

lemma write_opt_hex_zero:
  assumes "length pre = off" and "n \<le> k"
  shows "(if truthy v then Buffer_write_hex (pre @ replicate k 0) (the v) off n
          else Inr (pre @ replicate k 0))
           = Inr ((pre @ field n (opt_hex v)) @ replicate (k - n) 0)"
proof (cases "truthy v")
  case True
  then show ?thesis
    using Buffer_write_hex_zero [OF assms, of "the v"] by (simp add: opt_hex_def)
next
  case False
  then show ?thesis
    using skip_zero [OF assms(2), of pre] by (simp add: opt_hex_def)
qed


lemma transfer_zero:
  assumes "length pre = off"
    and "(if c then 16 else i + i) \<le> k"
  shows "(if c
          then bindE (writeUInt64LE (pre @ replicate k 0) r off)
                 (\<lambda>(bytes, offset). writeUInt64LE bytes a offset)
          else Inr (pre @ replicate k 0, off + (i + i)))
         = Inr ((pre @ (if c then le_bytes 8 r @ le_bytes 8 a else replicate (i + i) 0))
                  @ replicate (k - (if c then 16 else i + i)) 0,
                off + (if c then 16 else i + i))"
proof (cases c)
  case True
  have k: "8 \<le> k" "8 \<le> k - 8"
    using assms(2) True by simp_all
  have 1: "writeUInt64LE (pre @ replicate k 0) r off
             = Inr ((pre @ le_bytes 8 r) @ replicate (k - 8) 0, off + 8)"
    unfolding writeUInt64LE_def using assms(1) k(1) by (rule write_int_zero)
  have 2: "writeUInt64LE ((pre @ le_bytes 8 r) @ replicate (k - 8) 0) a (off + 8)
             = Inr (((pre @ le_bytes 8 r) @ le_bytes 8 a) @ replicate (k - 8 - 8) 0, off + 8 + 8)"
    unfolding writeUInt64LE_def using assms(1) k(2) by (intro write_int_zero) simp_all
  show ?thesis
    using True 1 2 by (simp add: bindE_def)
next
  case False
  then show ?thesis
    using assms(2) by (simp add: replicate_add [symmetric])
qed

lemma length_header_fields:
  "length (header_fields env trs)
     = HEX (BUFFER_LEN env) + 1 + 4 + HEX (BUFFER_LEN env)
       + (if trs_type trs = SEND env then 16
          else INT64 (BUFFER_LEN env) + INT64 (BUFFER_LEN env))
       + DOUBLE_HEX (BUFFER_LEN env) + DOUBLE_HEX (BUFFER_LEN env)"
  by (simp add: header_fields_def Let_def)

lemma getBytes_header:
  assumes fits: "length (header_fields env trs) \<le> TRANSACTION_BUFFER_SIZE env"
  shows "getBytes env trs
           = Inr (header_fields env trs
                  @ replicate (TRANSACTION_BUFFER_SIZE env - length (header_fields env trs)) 0
                  @ sv_getBytes (getTransactionServiceByType env (trs_type trs)) trs)"
proof -
  define h where "h = HEX (BUFFER_LEN env)"
  define d where "d = DOUBLE_HEX (BUFFER_LEN env)"
  define i where "i = INT64 (BUFFER_LEN env)"
  define c where "c = (trs_type trs = SEND env)"
  define w :: nat where "w = (if c then 16 else i + i)"
  define N where "N = TRANSACTION_BUFFER_SIZE env"
  define p1 where "p1 = [] @ field h (utf8_fit h (salt trs))"
  define p2 where "p2 = p1 @ le_bytes 1 (trs_type trs)"
  define p3 where "p3 = p2 @ le_bytes 4 (createdAt trs)"
  define p4 where "p4 = p3 @ field h (hex_decode (senderPublicKey trs))"
  define p5 where "p5 = p4 @ (if c then le_bytes 8 (recipientAddress (asset trs))
                                      @ le_bytes 8 (amount (asset trs))
                              else replicate (i + i) 0)"
  define p6 where "p6 = p5 @ field d (opt_hex (signature trs))"
  define p7 where "p7 = p6 @ field d (opt_hex (secondSignature trs))"
  have len: "length p1 = h" "length p2 = h + 1" "length p3 = h + 1 + 4"
    "length p4 = h + 1 + 4 + h" "length p5 = h + 1 + 4 + h + w"
    "length p6 = h + 1 + 4 + h + w + d"
    by (simp_all add: p1_def p2_def p3_def p4_def p5_def p6_def w_def)
  have total: "h + 1 + 4 + h + w + d + d \<le> N"
    using fits by (auto simp add: length_header_fields h_def d_def i_def c_def w_def N_def
        split: if_splits)
  have hf: "header_fields env trs = p7"
    by (simp add: header_fields_def Let_def p1_def p2_def p3_def p4_def p5_def p6_def p7_def
        h_def d_def i_def c_def)
  have s1: "Buffer_write_utf8 (Buffer_alloc N) (salt trs) 0 h = Inr (p1 @ replicate (N - h) 0)"
    using Buffer_write_utf8_zero [of "[]" 0 h N "salt trs"] total
    by (simp add: Buffer_alloc_def p1_def)
  have s2: "writeInt8 (p1 @ replicate (N - h) 0) (trs_type trs) (0 + h)
              = Inr (p2 @ replicate (N - h - 1) 0, h + 1)"
    unfolding writeInt8_def p2_def
    using write_int_zero [of p1 h 1 "N - h" "trs_type trs"] len total by simp
  have s3: "writeInt32LE (p2 @ replicate (N - h - 1) 0) (createdAt trs) (h + 1)
              = Inr (p3 @ replicate (N - h - 1 - 4) 0, h + 1 + 4)"
    unfolding writeInt32LE_def p3_def
    using write_int_zero [of p2 "h + 1" 4 "N - h - 1" "createdAt trs"] len total by simp
  have s4: "writeNotNull (p3 @ replicate (N - h - 1 - 4) 0) (senderPublicKey trs) (h + 1 + 4) h
              = Inr (p4 @ replicate (N - h - 1 - 4 - h) 0, h + 1 + 4 + h)"
    unfolding p4_def
    using writeNotNull_zero [of p3 "h + 1 + 4" h "N - h - 1 - 4" "senderPublicKey trs"] len total
    by simp
  have s5: "(if c
             then bindE (writeUInt64LE (p4 @ replicate (N - h - 1 - 4 - h) 0)
                           (recipientAddress (asset trs)) (h + 1 + 4 + h))
                    (\<lambda>(bytes, offset). writeUInt64LE bytes (amount (asset trs)) offset)
             else Inr (p4 @ replicate (N - h - 1 - 4 - h) 0, h + 1 + 4 + h + (i + i)))
            = Inr (p5 @ replicate (N - h - 1 - 4 - h - w) 0, h + 1 + 4 + h + w)"
    unfolding p5_def w_def
    using transfer_zero [of p4 "h + 1 + 4 + h" c i "N - h - 1 - 4 - h"
        "recipientAddress (asset trs)" "amount (asset trs)"] len total
    by (simp add: w_def)
  have s6: "(if truthy (signature trs)
             then Buffer_write_hex (p5 @ replicate (N - h - 1 - 4 - h - w) 0)
                    (the (signature trs)) (h + 1 + 4 + h + w) d
             else Inr (p5 @ replicate (N - h - 1 - 4 - h - w) 0))
            = Inr (p6 @ replicate (N - h - 1 - 4 - h - w - d) 0)"
    unfolding p6_def
    using write_opt_hex_zero [of p5 "h + 1 + 4 + h + w" d "N - h - 1 - 4 - h - w"
        "signature trs"] len total
    by simp
  have s7: "(if truthy (secondSignature trs)
             then Buffer_write_hex (p6 @ replicate (N - h - 1 - 4 - h - w - d) 0)
                    (the (secondSignature trs)) (h + 1 + 4 + h + w + d) d
             else Inr (p6 @ replicate (N - h - 1 - 4 - h - w - d) 0))
            = Inr (p7 @ replicate (N - h - 1 - 4 - h - w - d - d) 0)"
    unfolding p7_def
    using write_opt_hex_zero [of p6 "h + 1 + 4 + h + w + d" d "N - h - 1 - 4 - h - w - d"
        "secondSignature trs"] len total
    by simp
  have lp7: "length p7 = h + 1 + 4 + h + w + d + d"
    using len by (simp add: p7_def)
  have rest: "N - h - 1 - 4 - h - w - d - d = N - length p7"
    using lp7 by simp
  have "getBytes env trs
          = Inr (p7 @ replicate (N - length p7) 0
                 @ sv_getBytes (getTransactionServiceByType env (trs_type trs)) trs)"
    unfolding getBytes_def Let_def
    unfolding h_def [symmetric] d_def [symmetric] i_def [symmetric] c_def [symmetric]
      N_def [symmetric]
    by (simp only: bindE_def s1 s2 s3 s4 s5 [unfolded bindE_def] s6 s7 rest sum.case prod.case
        append_assoc)
  then show ?thesis
    by (simp add: hf N_def)
qed



text \<open>
  C2, amended. When the buffer constant \<open>TRANSACTION_BUFFER_SIZE\<close> is at least the sum
  of the field widths, \<open>getBytes\<close> returns a header of exactly
  \<open>TRANSACTION_BUFFER_SIZE\<close> bytes followed by the asset tail, and the header holds,
  from offset 0 and without gaps: the salt (\<open>BUFFER.LENGTH.HEX\<close> bytes: the characters of
  the salt string, zeros after them), the type (1 byte), \<open>createdAt\<close> (4 bytes,
  little-endian), the sender's public key (\<open>HEX\<close> bytes), the recipient address and the
  amount (8 bytes each, little-endian; \<open>2 * INT64\<close> zero bytes if the transaction is not
  a transfer), the signature (\<open>DOUBLE_HEX\<close> bytes, zero if unsigned) and the second
  signature (\<open>DOUBLE_HEX\<close> bytes, zero if absent). The salt and the public key have the
  same width, so the offsets are \<open>0\<close>, \<open>HEX\<close>, \<open>HEX + 1\<close>, \<open>HEX + 5\<close>,
  \<open>2 * HEX + 5\<close>, \<open>2 * HEX + 13\<close>, \<open>2 * HEX + 21\<close> and
  \<open>2 * HEX + 21 + DOUBLE_HEX\<close> for a transfer.
\<close>

theorem getBytes_layout:
  assumes fits: "2 * HEX (BUFFER_LEN env) + 5 + transfer_width env trs
                 + 2 * DOUBLE_HEX (BUFFER_LEN env) \<le> TRANSACTION_BUFFER_SIZE env"
  shows "\<exists>bs. getBytes env trs = Inr bs
     \<and> length bs = TRANSACTION_BUFFER_SIZE env
          + length (sv_getBytes (getTransactionServiceByType env (trs_type trs)) trs)
     \<and> drop (TRANSACTION_BUFFER_SIZE env) bs
          = sv_getBytes (getTransactionServiceByType env (trs_type trs)) trs
     \<and> take (HEX (BUFFER_LEN env)) bs
          = field (HEX (BUFFER_LEN env)) (utf8_fit (HEX (BUFFER_LEN env)) (salt trs))
     \<and> take 1 (drop (HEX (BUFFER_LEN env)) bs) = le_bytes 1 (trs_type trs)
     \<and> take 4 (drop (HEX (BUFFER_LEN env) + 1) bs) = le_bytes 4 (createdAt trs)
     \<and> take (HEX (BUFFER_LEN env)) (drop (HEX (BUFFER_LEN env) + 5) bs)
          = field (HEX (BUFFER_LEN env)) (hex_decode (senderPublicKey trs))
     \<and> take (transfer_width env trs) (drop (2 * HEX (BUFFER_LEN env) + 5) bs)
          = (if trs_type trs = SEND env
             then le_bytes 8 (recipientAddress (asset trs)) @ le_bytes 8 (amount (asset trs))
             else replicate (transfer_width env trs) 0)
     \<and> take (DOUBLE_HEX (BUFFER_LEN env))
          (drop (2 * HEX (BUFFER_LEN env) + 5 + transfer_width env trs) bs)
          = field (DOUBLE_HEX (BUFFER_LEN env)) (opt_hex (signature trs))
     \<and> take (DOUBLE_HEX (BUFFER_LEN env))
          (drop (2 * HEX (BUFFER_LEN env) + 5 + transfer_width env trs
                 + DOUBLE_HEX (BUFFER_LEN env)) bs)
          = field (DOUBLE_HEX (BUFFER_LEN env)) (opt_hex (secondSignature trs))"
proof -
  define h where "h = HEX (BUFFER_LEN env)"
  define d where "d = DOUBLE_HEX (BUFFER_LEN env)"
  define w where "w = transfer_width env trs"
  define N where "N = TRANSACTION_BUFFER_SIZE env"
  define tail where "tail = sv_getBytes (getTransactionServiceByType env (trs_type trs)) trs"
  define A1 where "A1 = field h (utf8_fit h (salt trs))"
  define A2 where "A2 = le_bytes 1 (trs_type trs)"
  define A3 where "A3 = le_bytes 4 (createdAt trs)"
  define A4 where "A4 = field h (hex_decode (senderPublicKey trs))"
  define A5 where "A5 = (if trs_type trs = SEND env
             then le_bytes 8 (recipientAddress (asset trs)) @ le_bytes 8 (amount (asset trs))
             else replicate w (0::byte))"
  define A6 where "A6 = field d (opt_hex (signature trs))"
  define A7 where "A7 = field d (opt_hex (secondSignature trs))"
  define bs where "bs = A1 @ A2 @ A3 @ A4 @ A5 @ A6 @ A7 @ replicate (N - (2 * h + 5 + w + 2 * d)) 0 @ tail"
  have l: "length A1 = h" "length A2 = 1" "length A3 = 4" "length A4 = h" "length A5 = w"
    "length A6 = d" "length A7 = d"
    by (simp_all add: A1_def A2_def A3_def A4_def A5_def A6_def A7_def w_def transfer_width_def)
  have hf: "header_fields env trs = A1 @ A2 @ A3 @ A4 @ A5 @ A6 @ A7"
    by (simp add: header_fields_def Let_def A1_def A2_def A3_def A4_def A5_def A6_def A7_def
        h_def d_def w_def transfer_width_def)
  have lhf: "length (header_fields env trs) = 2 * h + 5 + w + 2 * d"
    unfolding hf using l by simp
  have fits': "2 * h + 5 + w + 2 * d \<le> N"
    using fits by (simp add: h_def d_def w_def N_def)
  have g: "getBytes env trs = Inr bs"
    using getBytes_header [of env trs] fits' lhf
    by (simp add: hf bs_def N_def tail_def)
  have c1: "length bs = N + length tail"
    using l fits' by (simp add: bs_def)
  have c2: "drop N bs = tail"
    using l fits' by (simp add: bs_def)
  have c3: "take h bs = A1"
    using l by (simp add: bs_def)
  have c4: "take 1 (drop h bs) = A2"
    using l by (simp add: bs_def)
  have c5: "take 4 (drop (h + 1) bs) = A3"
    using l by (simp add: bs_def)
  have c6: "take h (drop (h + 5) bs) = A4"
    using l by (simp add: bs_def)
  have c7: "take w (drop (2 * h + 5) bs) = A5"
    using l by (simp add: bs_def)
  have c8: "take d (drop (2 * h + 5 + w) bs) = A6"
    using l by (simp add: bs_def)
  have c9: "take d (drop (2 * h + 5 + w + d) bs) = A7"
    using l by (simp add: bs_def)
  show ?thesis
    using g c1 c2 c3 c4 c5 c6 c7 c8 c9
    unfolding h_def d_def w_def N_def tail_def A1_def A2_def A3_def A4_def A5_def A6_def A7_def
    by blast
qed



theorem getBytes_layout_witness:
  "2 * HEX (BUFFER_LEN example_env) + 5 + transfer_width example_env example_signed
     + 2 * DOUBLE_HEX (BUFFER_LEN example_env) \<le> TRANSACTION_BUFFER_SIZE example_env
   \<and> (\<exists>bs. getBytes example_env example_signed = Inr bs
          \<and> length bs = 213
          \<and> take 1 (drop 32 bs) = [10]
          \<and> take 4 (drop 33 bs) = [5, 0, 0, 0]
          \<and> take 16 (drop 69 bs) = [2, 0, 0, 0, 0, 0, 0, 0, 90, 0, 0, 0, 0, 0, 0, 0]
          \<and> take 64 (drop 85 bs) = hex_decode (the (signature example_signed))
          \<and> take 64 (drop 149 bs) = hex_decode (the (secondSignature example_signed)))"
proof -
  have h: "2 * HEX (BUFFER_LEN example_env) + 5 + transfer_width example_env example_signed
     + 2 * DOUBLE_HEX (BUFFER_LEN example_env) \<le> TRANSACTION_BUFFER_SIZE example_env"
    by (simp add: example_env_def example_signed_def example_send_def transfer_width_def)
  have v: "transfer_width example_env example_signed = 16" "HEX (BUFFER_LEN example_env) = 32"
    "DOUBLE_HEX (BUFFER_LEN example_env) = 64" "TRANSACTION_BUFFER_SIZE example_env = 213"
    "sv_getBytes (getTransactionServiceByType example_env (trs_type example_signed))
       example_signed = []"
    by (simp_all add: example_env_def example_signed_def example_send_def transfer_width_def
        example_service_def)
  have e: "le_bytes 1 (trs_type example_signed) = [10]"
    "le_bytes 4 (createdAt example_signed) = [5, 0, 0, 0]"
    "le_bytes 8 (recipientAddress (asset example_signed))
       @ le_bytes 8 (amount (asset example_signed))
       = [2, 0, 0, 0, 0, 0, 0, 0, 90, 0, 0, 0, 0, 0, 0, 0]"
    by (simp_all add: example_signed_def example_send_def le_bytes_def upt_rec)
  have s: "field 64 (opt_hex (signature example_signed))
             = hex_decode (the (signature example_signed))"
    "field 64 (opt_hex (secondSignature example_signed))
             = hex_decode (the (secondSignature example_signed))"
    by (simp_all add: example_signed_def example_send_def field_def opt_hex_def truthy_def
        hex_digit_def)
  have c: "trs_type example_signed = SEND example_env"
    by (simp add: example_env_def example_signed_def example_send_def)
  from getBytes_layout [OF h] obtain bs where
    g: "getBytes example_env example_signed = Inr bs"
    and a1: "length bs = TRANSACTION_BUFFER_SIZE example_env
          + length (sv_getBytes (getTransactionServiceByType example_env
                      (trs_type example_signed)) example_signed)"
    and a2: "take 1 (drop (HEX (BUFFER_LEN example_env)) bs) = le_bytes 1 (trs_type example_signed)"
    and a3: "take 4 (drop (HEX (BUFFER_LEN example_env) + 1) bs)
          = le_bytes 4 (createdAt example_signed)"
    and a4: "take (transfer_width example_env example_signed)
           (drop (2 * HEX (BUFFER_LEN example_env) + 5) bs)
          = (if trs_type example_signed = SEND example_env
             then le_bytes 8 (recipientAddress (asset example_signed))
                  @ le_bytes 8 (amount (asset example_signed))
             else replicate (transfer_width example_env example_signed) 0)"
    and a5: "take (DOUBLE_HEX (BUFFER_LEN example_env))
          (drop (2 * HEX (BUFFER_LEN example_env) + 5
                 + transfer_width example_env example_signed) bs)
          = field (DOUBLE_HEX (BUFFER_LEN example_env)) (opt_hex (signature example_signed))"
    and a6: "take (DOUBLE_HEX (BUFFER_LEN example_env))
          (drop (2 * HEX (BUFFER_LEN example_env) + 5
                 + transfer_width example_env example_signed
                 + DOUBLE_HEX (BUFFER_LEN example_env)) bs)
          = field (DOUBLE_HEX (BUFFER_LEN example_env))
              (opt_hex (secondSignature example_signed))"
    by blast
  have b1: "length bs = 213"
    using a1 by (simp add: v)
  have b2: "take 1 (drop 32 bs) = [10]"
    by (rule a2 [unfolded v e])
  have b3: "take 4 (drop 33 bs) = [5, 0, 0, 0]"
    using a3 by (simp add: v e)
  have b4: "take 16 (drop 69 bs) = [2, 0, 0, 0, 0, 0, 0, 0, 90, 0, 0, 0, 0, 0, 0, 0]"
    using a4 c by (simp add: v e)
  have b5: "take 64 (drop 85 bs) = hex_decode (the (signature example_signed))"
    using a5 by (simp add: v s)
  have b6: "take 64 (drop 149 bs) = hex_decode (the (secondSignature example_signed))"
    using a6 by (simp add: v s)
  show ?thesis
    using h g b1 b2 b3 b4 b5 b6 by blast
qed

lemma second_signature_length:
  "length (opt_hex (secondSignature example_signed)) = 64"
  by (simp add: example_signed_def example_send_def opt_hex_def truthy_def hex_digit_def)

lemma getBytes_117:
  "getBytes example_env_117 example_signed = Inr
     ([48, 49, 50, 51, 52, 53, 54, 55, 56, 57, 97, 98, 99, 100, 101, 102]
      @ [10] @ [5, 0, 0, 0]
      @ take 16 (hex_decode (senderPublicKey example_signed))
      @ [2, 0, 0, 0, 0, 0, 0, 0] @ [90, 0, 0, 0, 0, 0, 0, 0]
      @ take 32 (hex_decode (the (signature example_signed)))
      @ take 32 (hex_decode (the (secondSignature example_signed))))"
  by (simp add: getBytes_def example_env_117_def example_env_def example_signed_def
      example_send_def example_service_def bindE_def Buffer_alloc_def Buffer_write_utf8_def
      Buffer_write_hex_def writeInt8_def writeInt32LE_def writeUInt64LE_def writeNotNull_def
      write_int_def put_def le_bytes_def truthy_def utf8_char_def hex_digit_def Let_def upt_rec)

text \<open>
  C2, as stated: a header of exactly 117 bytes followed by the asset tail, with the second
  signature (64 bytes) at offset 133. It fails for every value of the buffer constants:
  for the transfer with two signatures and a per-type service that adds no asset bytes,
  no output of 117 bytes holds the 64 bytes of the second signature from offset 133. With
  the constants whose field widths add up to 117 (\<open>HEX = 16\<close>, \<open>DOUBLE_HEX = 32\<close>)
  the public key has 16 bytes at offset 21, the recipient address is at 37, the amount at
  45, the signature has 32 bytes at 53 and the second signature 32 bytes at 85.
\<close>

theorem getBytes_layout_counterexample:
  "\<not> (\<exists>env bs.
        sv_getBytes (getTransactionServiceByType env (trs_type example_signed)) example_signed = []
        \<and> getBytes env example_signed = Inr bs
        \<and> length bs = 117
            + length (sv_getBytes (getTransactionServiceByType env (trs_type example_signed))
                        example_signed)
        \<and> take 64 (drop 133 bs) = opt_hex (secondSignature example_signed))
   \<and> getBytes example_env_117 example_signed = Inr
     ([48, 49, 50, 51, 52, 53, 54, 55, 56, 57, 97, 98, 99, 100, 101, 102]
      @ [10] @ [5, 0, 0, 0]
      @ take 16 (hex_decode (senderPublicKey example_signed))
      @ [2, 0, 0, 0, 0, 0, 0, 0] @ [90, 0, 0, 0, 0, 0, 0, 0]
      @ take 32 (hex_decode (the (signature example_signed)))
      @ take 32 (hex_decode (the (secondSignature example_signed))))"
proof -
  have "\<not> (\<exists>env bs.
        sv_getBytes (getTransactionServiceByType env (trs_type example_signed)) example_signed = []
        \<and> getBytes env example_signed = Inr bs
        \<and> length bs = 117
            + length (sv_getBytes (getTransactionServiceByType env (trs_type example_signed))
                        example_signed)
        \<and> take 64 (drop 133 bs) = opt_hex (secondSignature example_signed))"
  proof
    assume "\<exists>env bs.
        sv_getBytes (getTransactionServiceByType env (trs_type example_signed)) example_signed = []
        \<and> getBytes env example_signed = Inr bs
        \<and> length bs = 117
            + length (sv_getBytes (getTransactionServiceByType env (trs_type example_signed))
                        example_signed)
        \<and> take 64 (drop 133 bs) = opt_hex (secondSignature example_signed)"
    then obtain bs :: "byte list" where l: "length bs = 117"
      and t: "take 64 (drop 133 bs) = opt_hex (secondSignature example_signed)"
      by auto
    have "length (take 64 (drop 133 bs)) = 0"
      using l by simp
    then show False
      using t second_signature_length by simp
  qed
  then show ?thesis
    using getBytes_117 by blast
qed

section \<open>Properties of the fork resolver\<close>

lemma hex_value_foldl:
  "foldl (\<lambda>acc c. 16 * acc + digit_value c) a s
     = a * 16 ^ length s + foldl (\<lambda>acc c. 16 * acc + digit_value c) 0 s"
proof (induction s arbitrary: a)
  case Nil
  show ?case by simp
next
  case (Cons c cs)
  show ?case
    using Cons [of "16 * a + digit_value c"] Cons [of "digit_value c"]
    by (simp add: algebra_simps)
qed

lemma hex_value_Cons:
  "hex_value (c # cs) = digit_value c * 16 ^ length cs + hex_value cs"
  using hex_value_foldl [of "digit_value c" cs] by (simp add: hex_value_def)

lemma digit_value_less: "digit_value c < 16"
  by (auto simp: digit_value_def hex_digit_def Let_def)

lemma hex_value_less: "hex_value s < 16 ^ length s"
proof (induction s)
  case Nil
  show ?case by (simp add: hex_value_def)
next
  case (Cons c cs)
  have "digit_value c * 16 ^ length cs + hex_value cs < (digit_value c + 1) * 16 ^ length cs"
    using Cons by simp
  also have "\<dots> \<le> 16 * 16 ^ length cs"
    using digit_value_less [of c] by (intro mult_le_mono1) simp
  finally show ?case
    by (simp add: hex_value_Cons)
qed

lemma lower_hex_order:
  assumes "lower_hex x" and "lower_hex y"
  shows "((of_char x :: nat) < of_char y) = (digit_value x < digit_value y)"
    and "(x = y) = (digit_value x = digit_value y)"
proof -
  define n where "n = (of_char x :: nat)"
  define m where "m = (of_char y :: nat)"
  have e: "(x = y) = (n = m)"
    by (simp add: n_def m_def)
  have rn: "(48 \<le> n \<and> n \<le> 57) \<or> (97 \<le> n \<and> n \<le> 102)"
    using assms(1) by (simp add: lower_hex_def Let_def n_def)
  have rm: "(48 \<le> m \<and> m \<le> 57) \<or> (97 \<le> m \<and> m \<le> 102)"
    using assms(2) by (simp add: lower_hex_def Let_def m_def)
  have dn: "digit_value x = (if n \<le> 57 then n - 48 else n - 87)"
    using rn by (auto simp: digit_value_def hex_digit_def Let_def n_def [symmetric])
  have dm: "digit_value y = (if m \<le> 57 then m - 48 else m - 87)"
    using rm by (auto simp: digit_value_def hex_digit_def Let_def m_def [symmetric])
  show "((of_char x :: nat) < of_char y) = (digit_value x < digit_value y)"
    unfolding dn dm n_def [symmetric] m_def [symmetric] using rn rm by auto
  show "(x = y) = (digit_value x = digit_value y)"
    unfolding e dn dm using rn rm by auto
qed

lemma positional_less:
  fixes P :: nat
  assumes "a < P" and "b < P"
  shows "(d * P + a < e * P + b) = (d < e \<or> (d = e \<and> a < b))"
proof (cases "d < e")
  case True
  then have "(d + 1) * P \<le> e * P"
    by (intro mult_le_mono1) simp
  then have "d * P + a < e * P + b"
    using assms by simp
  then show ?thesis using True by simp
next
  case False
  show ?thesis
  proof (cases "d = e")
    case True
    then show ?thesis by simp
  next
    case ne: False
    then have "e < d" using False by simp
    then have "(e + 1) * P \<le> d * P"
      by (intro mult_le_mono1) simp
    then have "\<not> d * P + a < e * P + b"
      using assms by simp
    then show ?thesis using False ne by simp
  qed
qed

lemma string_less_hex_value:
  assumes "length a = length b" and "list_all lower_hex a" and "list_all lower_hex b"
  shows "string_less a b = (hex_value a < hex_value b)"
  using assms
proof (induction a b rule: list_induct2)
  case Nil
  show ?case by (simp add: hex_value_def)
next
  case (Cons x xs y ys)
  have ih: "string_less xs ys = (hex_value xs < hex_value ys)"
    using Cons by simp
  have lx: "lower_hex x" and ly: "lower_hex y"
    using Cons.prems by simp_all
  have "(hex_value (x # xs) < hex_value (y # ys))
      = (digit_value x < digit_value y
         \<or> (digit_value x = digit_value y \<and> hex_value xs < hex_value ys))"
    using hex_value_less [of xs] hex_value_less [of ys] Cons.hyps
      positional_less [of "hex_value xs" "16 ^ length xs" "hex_value ys"
        "digit_value x" "digit_value y"]
    by (simp add: hex_value_Cons)
  then show ?case
    using lower_hex_order [OF lx ly] ih by simp
qed

lemma checkForkBlock_normalize_fails:
  assumes "objectNormalize env block = Inl err"
  shows "checkForkBlock env block lastBlock st
           = Inl (err, st\<lparr>calls := calls st @ [ObjectNormalize]\<rparr>)"
  using assms by (simp add: checkForkBlock_def Let_def)

lemma checkForkBlock_slot_fails:
  assumes "objectNormalize env block = Inr tmpBlock"
    and "validateBlockSlot env tmpBlock lastBlock = Some err"
  shows "checkForkBlock env block lastBlock st
           = Inl (err, st\<lparr>calls := calls st @ [ObjectNormalize, ValidateBlockSlot]\<rparr>)"
  using assms by (simp add: checkForkBlock_def Let_def)

lemma checkForkBlock_receipt_fails:
  assumes "objectNormalize env block = Inr tmpBlock"
    and "validateBlockSlot env tmpBlock lastBlock = None"
    and "verifyReceipt env tmpBlock = (False, err # errs)"
  shows "checkForkBlock env block lastBlock st
           = Inl (err, st\<lparr>calls := calls st @ [ObjectNormalize, ValidateBlockSlot, VerifyReceipt]\<rparr>)"
  using assms by (simp add: checkForkBlock_def Let_def)

lemma checkForkBlock_ok:
  assumes "objectNormalize env block = Inr tmpBlock"
    and "validateBlockSlot env tmpBlock lastBlock = None"
    and "fst (verifyReceipt env tmpBlock)"
  shows "checkForkBlock env block lastBlock st
           = Inr (st\<lparr>calls := calls st @ [ObjectNormalize, ValidateBlockSlot, VerifyReceipt]\<rparr>)"
  using assms by (simp add: checkForkBlock_def Let_def)

lemma lastBlockStands_numeric:
  assumes "length (block_id block) = length (block_id lastBlock)"
    and "list_all lower_hex (block_id block)" and "list_all lower_hex (block_id lastBlock)"
  shows "lastBlockStands block lastBlock
           = (timestamp lastBlock < timestamp block
              \<or> (timestamp lastBlock = timestamp block
                  \<and> hex_value (block_id lastBlock) < hex_value (block_id block)))"
  using assms string_less_hex_value [of "block_id lastBlock" "block_id block"]
  by (auto simp: lastBlockStands_def)

text \<open>
  C3. A received block of height \<open>lastBlock.height + 1\<close> whose \<open>previousBlock\<close> is not
  \<open>lastBlock.id\<close> (fork 1), on a node that is ready and whose chain has at least two
  blocks. The head stands when it is older, or as old with the smaller id: the ids are
  compared as strings, which for ids of one length made of the digits \<open>0-9a-f\<close> is the
  comparison of the numbers they denote. When the head stands the received block is
  discarded: the fork is recorded and chain and pool are unchanged. Otherwise the
  resolver normalizes the received block, validates its slot and runs \<open>verifyReceipt\<close>,
  in this order; the first of the three that fails ends the recovery with its error and
  the chain unchanged; when all three pass, \<open>deleteLastBlock\<close> runs twice, so the chain
  has lost exactly its last two blocks, and the received block is not processed.
\<close>

theorem receiveForkOne_resolution:
  assumes ready: "loaded env" "\<not> syncing env" "\<not> ticking env"
    and chain: "blockchain st = lastBlock # parent # rest"
    and fork: "height block = height lastBlock + 1" "previousBlock block \<noteq> block_id lastBlock"
  shows "(length (block_id block) = length (block_id lastBlock)
            \<and> list_all lower_hex (block_id block) \<and> list_all lower_hex (block_id lastBlock)
          \<longrightarrow> lastBlockStands block lastBlock
                = (timestamp lastBlock < timestamp block
                   \<or> (timestamp lastBlock = timestamp block
                       \<and> hex_value (block_id lastBlock) < hex_value (block_id block))))
       \<and> (lastBlockStands block lastBlock
          \<longrightarrow> onReceiveBlock env block st = Inr (None, st\<lparr>calls := calls st @ [Fork 1]\<rparr>))
       \<and> (\<not> lastBlockStands block lastBlock \<and> objectNormalize env block = Inl err
          \<longrightarrow> onReceiveBlock env block st
                = Inr (Some err, st\<lparr>calls := calls st @ [Fork 1, ObjectNormalize]\<rparr>))
       \<and> (\<not> lastBlockStands block lastBlock \<and> objectNormalize env block = Inr tmpBlock
            \<and> validateBlockSlot env tmpBlock lastBlock = Some err
          \<longrightarrow> onReceiveBlock env block st
                = Inr (Some err, st\<lparr>calls := calls st @ [Fork 1, ObjectNormalize,
                                                    ValidateBlockSlot]\<rparr>))
       \<and> (\<not> lastBlockStands block lastBlock \<and> objectNormalize env block = Inr tmpBlock
            \<and> validateBlockSlot env tmpBlock lastBlock = None
            \<and> verifyReceipt env tmpBlock = (False, err # errs)
          \<longrightarrow> onReceiveBlock env block st
                = Inr (Some err, st\<lparr>calls := calls st @ [Fork 1, ObjectNormalize,
                                                    ValidateBlockSlot, VerifyReceipt]\<rparr>))
       \<and> (\<not> lastBlockStands block lastBlock \<and> objectNormalize env block = Inr tmpBlock
            \<and> validateBlockSlot env tmpBlock lastBlock = None
            \<and> fst (verifyReceipt env tmpBlock)
          \<longrightarrow> onReceiveBlock env block st
                = Inr (None, st\<lparr>blockchain := rest,
                                 calls := calls st @ [Fork 1, ObjectNormalize, ValidateBlockSlot,
                                            VerifyReceipt, DeleteLastBlock, DeleteLastBlock]\<rparr>))
       \<and> validateBlockSlot env tmpBlock lastBlock
           = (if (getSlotDelegatesCount env (height tmpBlock) \<noteq> 0
                  \<and> height lastBlock mod getSlotDelegatesCount env (height tmpBlock) = 0)
                 \<or> calcRound env (height lastBlock) < calcRound env (height tmpBlock)
              then validateBlockSlotAgainstPreviousRound env tmpBlock
              else delegates_validateBlockSlot env tmpBlock)"
proof -
  have c0: "validateBlockSlot env tmpBlock lastBlock
           = (if (getSlotDelegatesCount env (height tmpBlock) \<noteq> 0
                  \<and> height lastBlock mod getSlotDelegatesCount env (height tmpBlock) = 0)
                 \<or> calcRound env (height lastBlock) < calcRound env (height tmpBlock)
              then validateBlockSlotAgainstPreviousRound env tmpBlock
              else delegates_validateBlockSlot env tmpBlock)"
    by (simp add: validateBlockSlot_def Let_def)
  have dispatch: "onReceiveBlock env block st = Inr (receiveForkOne env block lastBlock st)"
    using ready chain fork by (simp add: onReceiveBlock_def lastBlock_get_def)
  have c1: "lastBlockStands block lastBlock
                = (timestamp lastBlock < timestamp block
                   \<or> (timestamp lastBlock = timestamp block
                       \<and> hex_value (block_id lastBlock) < hex_value (block_id block)))"
    if "length (block_id block) = length (block_id lastBlock)
            \<and> list_all lower_hex (block_id block) \<and> list_all lower_hex (block_id lastBlock)"
    using that by (intro lastBlockStands_numeric) simp_all
  have c2: "onReceiveBlock env block st = Inr (None, st\<lparr>calls := calls st @ [Fork 1]\<rparr>)"
    if "lastBlockStands block lastBlock"
    using that by (simp add: dispatch receiveForkOne_def Let_def)
  have c3: "onReceiveBlock env block st
                = Inr (Some err, st\<lparr>calls := calls st @ [Fork 1, ObjectNormalize]\<rparr>)"
    if "\<not> lastBlockStands block lastBlock" and n: "objectNormalize env block = Inl err"
    using that
    by (simp add: dispatch receiveForkOne_def Let_def checkForkBlock_normalize_fails [OF n])
  have c4: "onReceiveBlock env block st
                = Inr (Some err, st\<lparr>calls := calls st @ [Fork 1, ObjectNormalize,
                                                    ValidateBlockSlot]\<rparr>)"
    if "\<not> lastBlockStands block lastBlock" and n: "objectNormalize env block = Inr tmpBlock"
      and v: "validateBlockSlot env tmpBlock lastBlock = Some err"
    using that
    by (simp add: dispatch receiveForkOne_def Let_def checkForkBlock_slot_fails [OF n v])
  have c5: "onReceiveBlock env block st
                = Inr (Some err, st\<lparr>calls := calls st @ [Fork 1, ObjectNormalize,
                                                    ValidateBlockSlot, VerifyReceipt]\<rparr>)"
    if "\<not> lastBlockStands block lastBlock" and n: "objectNormalize env block = Inr tmpBlock"
      and v: "validateBlockSlot env tmpBlock lastBlock = None"
      and r: "verifyReceipt env tmpBlock = (False, err # errs)"
    using that
    by (simp add: dispatch receiveForkOne_def Let_def checkForkBlock_receipt_fails [OF n v r])
  have c6: "onReceiveBlock env block st
                = Inr (None, st\<lparr>blockchain := rest,
                                 calls := calls st @ [Fork 1, ObjectNormalize, ValidateBlockSlot,
                                            VerifyReceipt, DeleteLastBlock, DeleteLastBlock]\<rparr>)"
    if "\<not> lastBlockStands block lastBlock" and n: "objectNormalize env block = Inr tmpBlock"
      and v: "validateBlockSlot env tmpBlock lastBlock = None"
      and r: "fst (verifyReceipt env tmpBlock)"
    using that chain
    by (simp add: dispatch receiveForkOne_def Let_def checkForkBlock_ok [OF n v r]
        deleteLastBlock_def)
  show ?thesis
    using c0 c1 c2 c3 c4 c5 c6 by blast
qed





theorem receiveForkOne_resolution_witness:
  "onReceiveBlock example_block_env (example_block id_F 4 id_B2 110) example_node
     = Inr (None, example_node\<lparr>calls := [Fork 1]\<rparr>)
   \<and> onReceiveBlock example_block_env (example_block id_F 4 id_B2 95) example_node
     = Inr (None, example_node\<lparr>blockchain := [example_block id_G 1 [] 0],
                   calls := [Fork 1, ObjectNormalize, ValidateBlockSlot, VerifyReceipt,
                             DeleteLastBlock, DeleteLastBlock]\<rparr>)
   \<and> onReceiveBlock
         (example_block_env\<lparr>verifyReceipt := (\<lambda>b. (False, [''Failed to verify block signature'']))\<rparr>)
         (example_block id_F 4 id_B2 95) example_node
     = Inr (Some ''Failed to verify block signature'',
            example_node\<lparr>calls := [Fork 1, ObjectNormalize, ValidateBlockSlot, VerifyReceipt]\<rparr>)
   \<and> onReceiveBlock
         (example_block_env\<lparr>delegates_validateBlockSlot := (\<lambda>b. Some ''Failed to verify slot'')\<rparr>)
         (example_block id_F 4 id_B2 95) example_node
     = Inr (Some ''Failed to verify slot'',
            example_node\<lparr>calls := [Fork 1, ObjectNormalize, ValidateBlockSlot]\<rparr>)"
proof -
  let ?B1 = "example_block id_B1 3 id_P 100"
  let ?env2 = "example_block_env\<lparr>delegates_validateBlockSlot :=
                 (\<lambda>b. Some ''Failed to verify slot'')\<rparr>"
  have ready2: "loaded ?env2" "\<not> syncing ?env2" "\<not> ticking ?env2"
    by (simp_all add: example_block_env_def)
  have checks2: "objectNormalize ?env2 (example_block id_F 4 id_B2 95)
      = Inr (example_block id_F 4 id_B2 95)"
    "validateBlockSlot ?env2 (example_block id_F 4 id_B2 95) ?B1 = Some ''Failed to verify slot''"
    by (simp_all add: example_block_env_def validateBlockSlot_def example_block_def)
  let ?env' = "example_block_env\<lparr>verifyReceipt :=
                 (\<lambda>b. (False, [''Failed to verify block signature'']))\<rparr>"
  have ready: "loaded example_block_env" "\<not> syncing example_block_env"
    "\<not> ticking example_block_env"
    by (simp_all add: example_block_env_def)
  have ready': "loaded ?env'" "\<not> syncing ?env'" "\<not> ticking ?env'"
    by (simp_all add: example_block_env_def)
  have chain: "blockchain example_node
      = ?B1 # example_block id_P 2 id_G 90 # [example_block id_G 1 [] 0]"
    by (simp add: example_node_def)
  have fork: "height (example_block id_F 4 id_B2 ts) = height ?B1 + 1"
    "previousBlock (example_block id_F 4 id_B2 ts) \<noteq> block_id ?B1" for ts
    by (simp_all add: example_block_def id_B1_def id_B2_def)
  have stands: "lastBlockStands (example_block id_F 4 id_B2 110) ?B1"
    "\<not> lastBlockStands (example_block id_F 4 id_B2 95) ?B1"
    by (simp_all add: lastBlockStands_def example_block_def)
  have checks: "objectNormalize example_block_env (example_block id_F 4 id_B2 95)
      = Inr (example_block id_F 4 id_B2 95)"
    "validateBlockSlot example_block_env (example_block id_F 4 id_B2 95) ?B1 = None"
    "fst (verifyReceipt example_block_env (example_block id_F 4 id_B2 95))"
    by (simp_all add: example_block_env_def validateBlockSlot_def)
  have checks': "objectNormalize ?env' (example_block id_F 4 id_B2 95)
      = Inr (example_block id_F 4 id_B2 95)"
    "validateBlockSlot ?env' (example_block id_F 4 id_B2 95) ?B1 = None"
    "verifyReceipt ?env' (example_block id_F 4 id_B2 95)
       = (False, [''Failed to verify block signature''])"
    by (simp_all add: example_block_env_def validateBlockSlot_def)
  have c: "calls example_node = []"
    by (simp add: example_node_def)
  show ?thesis
    using receiveForkOne_resolution [OF ready chain fork [of 110]]
      receiveForkOne_resolution [OF ready chain fork [of 95],
        where tmpBlock = "example_block id_F 4 id_B2 95"]
      receiveForkOne_resolution [OF ready' chain fork [of 95],
        where tmpBlock = "example_block id_F 4 id_B2 95"
          and err = "''Failed to verify block signature''" and errs = "[]"]
      receiveForkOne_resolution [OF ready2 chain fork [of 95],
        where tmpBlock = "example_block id_F 4 id_B2 95" and err = "''Failed to verify slot''"]
      stands checks checks' checks2
    by (simp add: c)
qed



section \<open>Properties of newGenerateBlock\<close>

text \<open>
  C6. After a failure of block generation the drained transactions should be back in
  the pool and the lock released. That holds when the processing of the block fails (the
  second conjunct). When \<open>block.create\<close> throws, \<open>newGenerateBlock\<close> rethrows with
  the lock held and the drained transactions out of the pool (the first conjunct).
\<close>

theorem newGenerateBlock_create_failure:
  "newGenerateBlock (example_block_env\<lparr>block_create := (\<lambda>kp ts prev trs. Inl ''Invalid block'')\<rparr>)
        \<lparr>kp_publicKey = [1], kp_privateKey = [2]\<rparr> 110 example_node
     = (Rejected ''Invalid block'', example_node\<lparr>txpool := [], locked := True\<rparr>)
   \<and> newGenerateBlock (example_block_env\<lparr>processBlockError := (\<lambda>b c. Some ''Invalid block'')\<rparr>)
        \<lparr>kp_publicKey = [1], kp_privateKey = [2]\<rparr> 110 example_node
     = (Resolved, example_node)
   \<and> txpool example_node = [example_send ''t1'' 1 1 2 30 1, example_send ''t2'' 2 1 2 5 1]
   \<and> \<not> locked example_node"
  by (simp add: newGenerateBlock_def getUnconfirmedTransactionsForBlockGeneration_def
      lockTransactionPoolAndQueue_def unlockTransactionPoolAndQueue_def pushInPool_def
      newProcessBlock_def example_block_env_def example_node_def lastBlock_get_def)

end
